theory Spec2Isabelle
  imports Complex_Main "HOL-Library.Multiset"
begin

section \<open>Capital-gains engine of \<^verbatim>\<open>data_processor.py\<close>\<close>

text \<open>
  The development embeds \<^verbatim>\<open>DataProcessor\<close> of \<^verbatim>\<open>src/src/data_processor.py\<close>:
  the financial-year derivation, the FIFO matching of sells against buy parcels, the
  per-parcel discount classification and the per-period summary.

  Numbers. The source computes on the numeric cells of a data frame. In the matching they
  are modelled as exact rationals (\<^typ>\<open>rat\<close>): the arithmetic identities of the
  matching are those of the formulas the code evaluates, without the rounding of binary
  floating point. The summary, whose totals depend on the order of the additions, is
  accumulated with the rounding of binary floating point.

  Exceptions. A function that can raise returns a sum, the exception on the left: a
  division whose divisor is zero is \<^verbatim>\<open>ZeroDivisionError\<close>, and reading a column
  that a data frame does not have is \<^verbatim>\<open>KeyError\<close>.

  Dates. A trade date is a calendar date. Comparing two dates (sorting) and subtracting
  them (\<^verbatim>\<open>(a - b).days\<close>) go through the proleptic Gregorian day number, as
  \<^verbatim>\<open>date.toordinal\<close> of the standard library computes it.
\<close>

subsection \<open>Calendar dates\<close>

record date =
  year :: int
  month :: int
  day :: int

definition is_leap :: "int \<Rightarrow> bool" where
  "is_leap y = (y mod 4 = 0 \<and> (y mod 100 \<noteq> 0 \<or> y mod 400 = 0))"

definition days_before_year :: "int \<Rightarrow> int" where
  "days_before_year y = (y - 1) * 365 + (y - 1) div 4 - (y - 1) div 100 + (y - 1) div 400"

definition days_before_month :: "int \<Rightarrow> int \<Rightarrow> int" where
  "days_before_month y m =
     [0, 31, 59, 90, 120, 151, 181, 212, 243, 273, 304, 334] ! nat (m - 1)
       + (if m > 2 \<and> is_leap y then 1 else 0)"

definition toordinal :: "date \<Rightarrow> int" where
  "toordinal d = days_before_year (year d) + days_before_month (year d) (month d) + day d"

text \<open>\<^verbatim>\<open>(a - b).days\<close> for two dates.\<close>

definition days_between :: "date \<Rightarrow> date \<Rightarrow> int" where
  "days_between a b = toordinal a - toordinal b"

subsection \<open>Rendering integers and dates\<close>

text \<open>\<^verbatim>\<open>str(n)\<close> for an integer, as an f-string field \<^verbatim>\<open>{n}\<close> renders it.\<close>

fun str_nat :: "nat \<Rightarrow> string" where
  "str_nat n =
     (if n < 10 then [''0123456789'' ! n]
      else str_nat (n div 10) @ [''0123456789'' ! (n mod 10)])"

declare str_nat.simps [simp del]

definition str_int :: "int \<Rightarrow> string" where
  "str_int i = (if i < 0 then CHR ''-'' # str_nat (nat (- i)) else str_nat (nat i))"

text \<open>\<^verbatim>\<open>" ".join(parts)\<close>.\<close>

fun join_space :: "string list \<Rightarrow> string" where
  "join_space [] = []"
| "join_space [s] = s"
| "join_space (s # t # ss) = s @ '' '' @ join_space (t # ss)"

text \<open>\<^verbatim>\<open>date.strftime("%d %b %Y")\<close>: the day on two digits, the month's English
  abbreviation, the year.\<close>

definition format_date :: "date \<Rightarrow> string" where
  "format_date d =
     (if day d < 10 then ''0'' @ str_int (day d) else str_int (day d)) @ '' '' @
     [''Jan'', ''Feb'', ''Mar'', ''Apr'', ''May'', ''Jun'',
      ''Jul'', ''Aug'', ''Sep'', ''Oct'', ''Nov'', ''Dec''] ! nat (month d - 1) @ '' '' @
     str_int (year d)"

text \<open>\<^verbatim>\<open>_format_holding_period\<close>; \<^verbatim>\<open>//\<close> and \<^verbatim>\<open>%\<close> round towards minus
  infinity, as \<open>div\<close> and \<open>mod\<close> on \<^typ>\<open>int\<close> do.\<close>

definition format_holding_period :: "int \<Rightarrow> string" where
  "format_holding_period days =
     (let years = days div 365;
          remaining_days = days mod 365;
          months = remaining_days div 30;
          remaining_days = remaining_days mod 30;
          parts = [];
          parts = (if years > 0 then parts @ [str_int years @ ''y''] else parts);
          parts = (if months > 0 then parts @ [str_int months @ ''m''] else parts);
          parts = (if remaining_days > 0 \<or> parts = []
                   then parts @ [str_int remaining_days @ ''d''] else parts)
      in join_space parts)"

subsection \<open>Financial year\<close>

text \<open>\<^verbatim>\<open>_get_financial_year\<close>: the two fields are \<^verbatim>\<open>{date.year % 100}\<close> and
  \<^verbatim>\<open>{(date.year + 1) % 100}\<close>, rendered with no width or padding.\<close>

definition get_financial_year :: "date \<Rightarrow> string" where
  "get_financial_year d =
     (if month d \<ge> 7
      then ''FY'' @ str_int (year d mod 100) @ ''_'' @ str_int ((year d + 1) mod 100)
      else ''FY'' @ str_int ((year d - 1) mod 100) @ ''_'' @ str_int (year d mod 100))"

subsection \<open>Trades, parcels and the lot book\<close>

text \<open>A row of the normalised data frame, with the columns the engine reads:
  \<^verbatim>\<open>Trade Date\<close>, \<^verbatim>\<open>Symbol\<close>, \<^verbatim>\<open>Side\<close>, \<^verbatim>\<open>Units\<close>, \<^verbatim>\<open>Value\<close>,
  \<^verbatim>\<open>Fees\<close>, \<^verbatim>\<open>GST\<close> and \<^verbatim>\<open>AUD/USD rate\<close>. \<^verbatim>\<open>Side\<close> is a string cell.\<close>

record trade =
  Trade_Date :: date
  Symbol :: string
  Side :: string
  Units :: rat
  Value :: rat
  Fees :: rat
  GST :: rat
  AUD_USD_rate :: rat

text \<open>The dictionary appended to \<^verbatim>\<open>available_shares[symbol]\<close> for a buy (keys
  \<^verbatim>\<open>date\<close>, \<^verbatim>\<open>units\<close>, \<^verbatim>\<open>value\<close>, \<^verbatim>\<open>fees\<close>, \<^verbatim>\<open>gst\<close>, \<^verbatim>\<open>rate\<close>,
  \<^verbatim>\<open>total_cost\<close>).\<close>

record parcel =
  lot_date :: date
  lot_units :: rat
  lot_value :: rat
  lot_fees :: rat
  lot_gst :: rat
  lot_rate :: rat
  total_cost :: rat

text \<open>An entry of \<^verbatim>\<open>matched_buys\<close> (keys \<^verbatim>\<open>date\<close>, \<^verbatim>\<open>units\<close>, \<^verbatim>\<open>cost\<close>).\<close>

record matched_buy =
  matched_date :: date
  matched_units :: rat
  matched_cost :: rat

datatype py_error = ZeroDivisionError | KeyError

text \<open>The two \<^verbatim>\<open>logger.warning\<close> records of \<^verbatim>\<open>_match_trades\<close>.\<close>

datatype warning =
  No_available_shares string date
  | Not_enough_shares rat

type_synonym lot_book = "string \<rightharpoonup> parcel list"

definition new_parcel :: "trade \<Rightarrow> parcel" where
  "new_parcel buy =
     \<lparr>lot_date = Trade_Date buy,
      lot_units = \<bar>Units buy\<bar>,
      lot_value = \<bar>Value buy\<bar>,
      lot_fees = Fees buy,
      lot_gst = GST buy,
      lot_rate = AUD_USD_rate buy,
      total_cost = (\<bar>Value buy\<bar> + Fees buy + GST buy) * AUD_USD_rate buy\<rparr>"

text \<open>One iteration of the loop over the buys (lines 87 to 100).\<close>

definition add_buy :: "trade \<Rightarrow> lot_book \<Rightarrow> lot_book" where
  "add_buy buy available_shares =
     (let symbol = Symbol buy;
          available_shares =
            (if available_shares symbol = None then available_shares(symbol \<mapsto> [])
             else available_shares)
      in available_shares
           (symbol \<mapsto> (case available_shares symbol of None \<Rightarrow> [] | Some shares_list \<Rightarrow> shares_list)
                          @ [new_parcel buy]))"

definition load_buys :: "trade list \<Rightarrow> lot_book" where
  "load_buys buys = fold add_buy buys Map.empty"

subsection \<open>FIFO consumption\<close>

text \<open>
  The \<^verbatim>\<open>while remaining_to_sell > 0 and shares_list\<close> loop (lines 121 to 144). The loop
  state is the units still to sell, the symbol's queue (mutated in place by the source, so
  returned here), the matched entries and the running cost base. The division by
  \<^verbatim>\<open>oldest_parcel['units']\<close> raises when that is zero.
\<close>

function match_loop ::
  "rat \<Rightarrow> parcel list \<Rightarrow> matched_buy list \<Rightarrow> rat
     \<Rightarrow> py_error + (rat \<times> parcel list \<times> matched_buy list \<times> rat)" where
  "match_loop remaining_to_sell [] matched_buys cost_base =
     Inr (remaining_to_sell, [], matched_buys, cost_base)"
| "match_loop remaining_to_sell (oldest_parcel # rest) matched_buys cost_base =
     (if remaining_to_sell > 0 then
        (let units_from_parcel = min remaining_to_sell (lot_units oldest_parcel) in
         if lot_units oldest_parcel = 0 then Inl ZeroDivisionError
         else
           (let portion_of_total = units_from_parcel / lot_units oldest_parcel;
                cost_for_these_units = total_cost oldest_parcel * portion_of_total;
                matched_buys' = matched_buys @
                  [\<lparr>matched_date = lot_date oldest_parcel,
                    matched_units = units_from_parcel,
                    matched_cost = cost_for_these_units\<rparr>];
                cost_base' = cost_base + cost_for_these_units;
                remaining_to_sell' = remaining_to_sell - units_from_parcel;
                units' = lot_units oldest_parcel - units_from_parcel
            in if units' \<le> 0
               then match_loop remaining_to_sell' rest matched_buys' cost_base'
               else match_loop remaining_to_sell'
                      (oldest_parcel\<lparr>lot_units := units'\<rparr> # rest) matched_buys' cost_base'))
      else Inr (remaining_to_sell, oldest_parcel # rest, matched_buys, cost_base))"
  by pat_completeness auto
termination
  by (relation "measure (\<lambda>(r, q, m, c). 2 * length q + (if r > 0 then 1 else 0))")
     (auto simp: min_def split: if_splits)

declare match_loop.simps [simp del]

subsection \<open>Sale results\<close>

definition cgt_discount_days :: int where
  "cgt_discount_days = 365"

text \<open>The dictionary appended to \<^verbatim>\<open>results\<close> (lines 207 to 220).\<close>

record sale =
  symbol :: string
  buy_dates :: "string list"
  sell_date :: string
  units :: rat
  cost_base :: rat
  proceeds :: rat
  total_gain_loss :: rat
  discounted_gain :: rat
  undiscounted_gain :: rat
  capital_loss :: rat
  financial_year :: string
  holding_periods :: "string list"

text \<open>Line 153: the sale's proceeds, once per sale.\<close>

definition sale_proceeds :: "trade \<Rightarrow> rat" where
  "sale_proceeds sell = (\<bar>Value sell\<bar> - Fees sell - GST sell) * AUD_USD_rate sell"

text \<open>Lines 163 to 165, for one entry of \<^verbatim>\<open>matched_buys\<close>.\<close>

definition holding_period :: "trade \<Rightarrow> matched_buy \<Rightarrow> int" where
  "holding_period sell m = days_between (Trade_Date sell) (matched_date m)"

definition portion_proceeds :: "trade \<Rightarrow> matched_buy \<Rightarrow> rat" where
  "portion_proceeds sell m = (matched_units m / \<bar>Units sell\<bar>) * sale_proceeds sell"

definition parcel_gain_loss :: "trade \<Rightarrow> matched_buy \<Rightarrow> rat" where
  "parcel_gain_loss sell m = portion_proceeds sell m - matched_cost m"

text \<open>The body of \<^verbatim>\<open>for matched_buy in matched_buys\<close> (lines 161 to 185) on the three
  running totals \<^verbatim>\<open>total_discounted_gain\<close>, \<^verbatim>\<open>total_undiscounted_gain\<close> and
  \<^verbatim>\<open>total_loss\<close>.\<close>

definition parcel_step :: "trade \<Rightarrow> matched_buy \<Rightarrow> rat \<times> rat \<times> rat \<Rightarrow> rat \<times> rat \<times> rat" where
  "parcel_step sell m totals =
     (case totals of (total_discounted_gain, total_undiscounted_gain, total_loss) \<Rightarrow>
        if parcel_gain_loss sell m > 0 then
          (if holding_period sell m \<ge> cgt_discount_days
           then (total_discounted_gain + parcel_gain_loss sell m * (1 / 2),
                 total_undiscounted_gain, total_loss)
           else (total_discounted_gain,
                 total_undiscounted_gain + parcel_gain_loss sell m, total_loss))
        else (total_discounted_gain, total_undiscounted_gain,
              total_loss + parcel_gain_loss sell m))"

definition parcel_totals :: "trade \<Rightarrow> matched_buy list \<Rightarrow> rat \<times> rat \<times> rat" where
  "parcel_totals sell matched_buys = fold (parcel_step sell) matched_buys (0, 0, 0)"

definition sale_result :: "trade \<Rightarrow> matched_buy list \<Rightarrow> sale" where
  "sale_result sell matched_buys =
     (case parcel_totals sell matched_buys of
        (total_discounted_gain, total_undiscounted_gain, total_loss) \<Rightarrow>
          \<lparr>symbol = Symbol sell,
           buy_dates = map (\<lambda>m. format_date (matched_date m)) matched_buys,
           sell_date = format_date (Trade_Date sell),
           units = Units sell,
           cost_base = sum_list (map matched_cost matched_buys),
           proceeds = sale_proceeds sell,
           total_gain_loss = total_discounted_gain + total_undiscounted_gain + total_loss,
           discounted_gain = total_discounted_gain,
           undiscounted_gain = total_undiscounted_gain,
           capital_loss = total_loss,
           financial_year = get_financial_year (Trade_Date sell),
           holding_periods =
             map (\<lambda>m. format_holding_period (days_between (Trade_Date sell) (matched_date m)))
               matched_buys\<rparr>)"

subsection \<open>Matching the sells\<close>

text \<open>
  One iteration of \<^verbatim>\<open>for _, sell in sells.iterrows()\<close> (lines 104 to 220) on the lot
  book, the results and the warnings logged so far. \<^verbatim>\<open>shares_list\<close> aliases the
  book's queue, so what the loop leaves of it is the book's queue afterwards, also on the
  two \<^verbatim>\<open>continue\<close> paths. The division by \<^verbatim>\<open>units_to_sell\<close> of line 164 is the same
  in every iteration of the parcel loop, so it is guarded once, where that loop starts.
\<close>

type_synonym match_state = "lot_book \<times> sale list \<times> warning list"

definition process_sell :: "trade \<Rightarrow> match_state \<Rightarrow> py_error + match_state" where
  "process_sell sell st =
     (case st of (available_shares, results, warnings) \<Rightarrow>
        (case available_shares (Symbol sell) of
           None \<Rightarrow>
             Inr (available_shares, results,
                  warnings @ [No_available_shares (Symbol sell) (Trade_Date sell)])
         | Some [] \<Rightarrow>
             Inr (available_shares, results,
                  warnings @ [No_available_shares (Symbol sell) (Trade_Date sell)])
         | Some (p # ps) \<Rightarrow>
             (case match_loop \<bar>Units sell\<bar> (p # ps) [] 0 of
                Inl e \<Rightarrow> Inl e
              | Inr (remaining_to_sell, shares_list, matched_buys, cost) \<Rightarrow>
                  if remaining_to_sell > 0 then
                    Inr (available_shares(Symbol sell \<mapsto> shares_list), results,
                         warnings @ [Not_enough_shares remaining_to_sell])
                  else if matched_buys \<noteq> [] then
                    (if \<bar>Units sell\<bar> = 0 then Inl ZeroDivisionError
                     else Inr (available_shares(Symbol sell \<mapsto> shares_list),
                               results @ [sale_result sell matched_buys], warnings))
                  else Inr (available_shares(Symbol sell \<mapsto> shares_list), results, warnings))))"

fun sells_loop :: "trade list \<Rightarrow> match_state \<Rightarrow> py_error + match_state" where
  "sells_loop [] st = Inr st"
| "sells_loop (sell # sells) st =
     (case process_sell sell st of Inl e \<Rightarrow> Inl e | Inr st' \<Rightarrow> sells_loop sells st')"

text \<open>
  \<^verbatim>\<open>_match_trades\<close>: both frames are sorted by trade date, every buy is loaded, then
  the sells are matched. \<^verbatim>\<open>sort_values\<close> is modelled by the stable \<^const>\<open>sort_key\<close>,
  where rows of one date keep their order; the default sort of the library orders the rows
  by date and need not keep the order of rows of one date. The function returns
  \<^verbatim>\<open>results\<close>; the warnings are what it logged.
\<close>

definition by_trade_date :: "trade list \<Rightarrow> trade list" where
  "by_trade_date rows = sort_key (\<lambda>t. toordinal (Trade_Date t)) rows"

definition match_trades :: "trade list \<Rightarrow> trade list \<Rightarrow> py_error + (sale list \<times> warning list)" where
  "match_trades buys sells =
     (case sells_loop (by_trade_date sells) (load_buys (by_trade_date buys), [], []) of
        Inl e \<Rightarrow> Inl e
      | Inr (available_shares, results, warnings) \<Rightarrow> Inr (results, warnings))"

subsection \<open>Summary by financial year\<close>

text \<open>
  The summary is accumulated in Python floats from \<^verbatim>\<open>0.0\<close>: IEEE 754 binary64 numbers,
  whose \<^verbatim>\<open>+\<close> and \<^verbatim>\<open>-\<close> return the exact result rounded to the nearest
  representable number, ties to the one with an even significand. A finite float is
  modelled by the rational it denotes. Overflow to infinity (magnitudes from \<open>2 ^ 1024\<close>
  on), NaN and the sign of zero are not modelled.
\<close>

definition pow2 :: "int \<Rightarrow> rat" where
  "pow2 e = (if 0 \<le> e then 2 ^ nat e else 1 / 2 ^ nat (- e))"

text \<open>The exponent \<open>e\<close> with \<open>2 ^ e \<le> x < 2 ^ (e + 1)\<close> of a positive number.\<close>

function binary_exponent :: "rat \<Rightarrow> int" where
  "binary_exponent x =
     (if 2 \<le> x then binary_exponent (x / 2) + 1
      else if 0 < x \<and> x < 1 then binary_exponent (x * 2) - 1
      else 0)"
  by pat_completeness auto
termination
proof (relation "measure (\<lambda>x. if 1 \<le> x then nat \<lfloor>x\<rfloor> else nat \<lfloor>1 / x\<rfloor> + 1)")
  show "wf (measure (\<lambda>x::rat. if 1 \<le> x then nat \<lfloor>x\<rfloor> else nat \<lfloor>1 / x\<rfloor> + 1))"
    by simp
next
  fix x :: rat
  assume x: "2 \<le> x"
  have "rat_of_int \<lfloor>x / 2\<rfloor> * 2 \<le> x / 2 * 2"
    by (rule mult_right_mono) (simp_all only: of_int_floor_le zero_le_numeral)
  then have "of_int (\<lfloor>x / 2\<rfloor> * 2) \<le> x"
    by simp
  then have half: "\<lfloor>x / 2\<rfloor> * 2 \<le> \<lfloor>x\<rfloor>"
    by (simp only: le_floor_iff)
  from x have "of_int 1 \<le> x / 2"
    by simp
  then have "1 \<le> \<lfloor>x / 2\<rfloor>"
    by (simp only: le_floor_iff)
  with half have "\<lfloor>x / 2\<rfloor> < \<lfloor>x\<rfloor>" "0 < \<lfloor>x\<rfloor>"
    by linarith+
  with x show "(x / 2, x) \<in> measure (\<lambda>x. if 1 \<le> x then nat \<lfloor>x\<rfloor> else nat \<lfloor>1 / x\<rfloor> + 1)"
    by simp
next
  fix x :: rat
  assume "\<not> 2 \<le> x" and x: "0 < x \<and> x < 1"
  then have "of_int 1 \<le> 1 / x"
    by simp
  then have one: "1 \<le> \<lfloor>1 / x\<rfloor>"
    by (simp only: le_floor_iff)
  show "(x * 2, x) \<in> measure (\<lambda>x. if 1 \<le> x then nat \<lfloor>x\<rfloor> else nat \<lfloor>1 / x\<rfloor> + 1)"
  proof (cases "1 \<le> x * 2")
    case True
    with x have "\<lfloor>x * 2\<rfloor> = 1"
      by (simp add: floor_eq_iff)
    with True x one show ?thesis
      by simp
  next
    case False
    have "rat_of_int \<lfloor>1 / (x * 2)\<rfloor> * 2 \<le> 1 / (x * 2) * 2"
      by (rule mult_right_mono) (simp_all only: of_int_floor_le zero_le_numeral)
    then have "of_int (\<lfloor>1 / (x * 2)\<rfloor> * 2) \<le> 1 / x"
      by simp
    then have half: "\<lfloor>1 / (x * 2)\<rfloor> * 2 \<le> \<lfloor>1 / x\<rfloor>"
      by (simp only: le_floor_iff)
    from False x have "of_int 1 \<le> 1 / (x * 2)"
      by (simp add: field_simps)
    then have "1 \<le> \<lfloor>1 / (x * 2)\<rfloor>"
      by (simp only: le_floor_iff)
    with half have "\<lfloor>1 / (x * 2)\<rfloor> < \<lfloor>1 / x\<rfloor>"
      by linarith
    with False x one show ?thesis
      by simp
  qed
qed

declare binary_exponent.simps [simp del]

text \<open>The integer nearest to a number, the even one of the two when it lies halfway.\<close>

definition round_half_even :: "rat \<Rightarrow> int" where
  "round_half_even y =
     (let n = \<lfloor>y\<rfloor>; d = y - of_int n
      in if d < 1 / 2 then n else if 1 / 2 < d then n + 1 else if even n then n else n + 1)"

text \<open>Rounding to binary64: 53 significant bits, so the spacing of the floats around
  \<open>x\<close> is \<open>2 ^ (e - 52)\<close> for the exponent \<open>e\<close> of \<open>|x|\<close>, and \<open>2 ^ (- 1074)\<close> below the
  smallest normal number \<open>2 ^ (- 1022)\<close>.\<close>

definition double_round :: "rat \<Rightarrow> rat" where
  "double_round x =
     (if x = 0 then 0
      else let e = max (binary_exponent \<bar>x\<bar>) (- 1022);
               ulp = pow2 (e - 52)
           in sgn x * of_int (round_half_even (\<bar>x\<bar> / ulp)) * ulp)"

text \<open>\<^verbatim>\<open>float(x)\<close>, \<^verbatim>\<open>a + b\<close> and \<^verbatim>\<open>a - b\<close> on floats.\<close>

definition float_of :: "rat \<Rightarrow> rat" where
  "float_of x = double_round x"

definition float_add :: "rat \<Rightarrow> rat \<Rightarrow> rat" where
  "float_add a b = double_round (a + b)"

definition float_sub :: "rat \<Rightarrow> rat \<Rightarrow> rat" where
  "float_sub a b = double_round (a - b)"

record period_summary =
  total_gains :: rat
  total_losses :: rat
  net_position :: rat

text \<open>The body of \<^verbatim>\<open>for trade in results\<close> of \<^verbatim>\<open>_prepare_summary\<close> (lines 232 to
  257).\<close>

definition summary_step :: "sale \<Rightarrow> (string \<rightharpoonup> period_summary) \<Rightarrow> (string \<rightharpoonup> period_summary)" where
  "summary_step trade summary =
     (let fy = financial_year trade;
          summary =
            (if summary fy = None
             then summary(fy \<mapsto> \<lparr>total_gains = 0, total_losses = 0, net_position = 0\<rparr>)
             else summary);
          entry = (case summary fy of
                     None \<Rightarrow> \<lparr>total_gains = 0, total_losses = 0, net_position = 0\<rparr>
                   | Some e \<Rightarrow> e);
          discounted_gain = float_of (discounted_gain trade);
          undiscounted_gain = float_of (undiscounted_gain trade);
          capital_loss = float_of (capital_loss trade);
          gains = float_add (total_gains entry) (float_add discounted_gain undiscounted_gain);
          losses = float_add (total_losses entry) \<bar>capital_loss\<bar>
      in summary(fy \<mapsto> \<lparr>total_gains = gains, total_losses = losses,
                           net_position = float_sub gains losses\<rparr>))"

text \<open>The dictionary \<^verbatim>\<open>summary\<close> when the loop ends.\<close>

definition summary_loop :: "sale list \<Rightarrow> (string \<rightharpoonup> period_summary)" where
  "summary_loop results = fold summary_step results Map.empty"

text \<open>
  \<^verbatim>\<open>_prepare_summary\<close>. After the loop the dictionary is made a data frame, transposed,
  and its columns \<^verbatim>\<open>total_gains\<close>, \<^verbatim>\<open>total_losses\<close> and \<^verbatim>\<open>net_position\<close>
  are read and rewritten as currency strings. With no result the dictionary is empty, the
  frame has no column, and reading \<^verbatim>\<open>df['total_gains']\<close> raises. Otherwise the
  function returns the frame, modelled by the dictionary itself: the currency strings made
  of the numbers for display are not modelled.
\<close>

definition prepare_summary :: "sale list \<Rightarrow> py_error + (string \<rightharpoonup> period_summary)" where
  "prepare_summary results =
     (if results = [] then Inl KeyError else Inr (summary_loop results))"

subsection \<open>The entry point\<close>

text \<open>\<^verbatim>\<open>process_data\<close>: the \<^verbatim>\<open>Financial Year\<close> column it adds first (line 51; nothing
  reads it afterwards), the split by \<^verbatim>\<open>Side\<close>, the matching, the summary and the
  details (\<^verbatim>\<open>_prepare_details\<close> formats the results for display and reads only the
  columns that exist). \<^verbatim>\<open>logged\<close> holds the warnings of a run that returns.\<close>

definition financial_year_column :: "trade list \<Rightarrow> string list" where
  "financial_year_column df = map (\<lambda>t. get_financial_year (Trade_Date t)) df"

record processed =
  summary :: "string \<rightharpoonup> period_summary"
  details :: "sale list"
  logged :: "warning list"

definition process_data :: "trade list \<Rightarrow> py_error + processed" where
  "process_data df =
     (let buys = filter (\<lambda>t. Side t = ''Buy'') df;
          sells = filter (\<lambda>t. Side t = ''Sell'') df
      in case match_trades buys sells of
           Inl e \<Rightarrow> Inl e
         | Inr (results, warnings) \<Rightarrow>
             (case prepare_summary results of
                Inl e \<Rightarrow> Inl e
              | Inr summary_frame \<Rightarrow>
                  Inr \<lparr>summary = summary_frame, details = results, logged = warnings\<rparr>))"

subsection \<open>Notions used in the statements\<close>

text \<open>A queue whose lots all hold a positive number of units, the units a queue holds, and
  the entry of \<^verbatim>\<open>matched_buys\<close> the loop appends when it takes a lot whole or takes
  \<open>t\<close> units of it.\<close>

definition lots_positive :: "parcel list \<Rightarrow> bool" where
  "lots_positive q = list_all (\<lambda>p. 0 < lot_units p) q"

definition total_units :: "parcel list \<Rightarrow> rat" where
  "total_units q = sum_list (map lot_units q)"

definition taken_whole :: "parcel \<Rightarrow> matched_buy" where
  "taken_whole p =
     \<lparr>matched_date = lot_date p, matched_units = lot_units p, matched_cost = total_cost p\<rparr>"

definition taken_part :: "parcel \<Rightarrow> rat \<Rightarrow> matched_buy" where
  "taken_part p t =
     \<lparr>matched_date = lot_date p, matched_units = t,
      matched_cost = total_cost p * (t / lot_units p)\<rparr>"

text \<open>The two ways the loop can end on a queue \<open>pre @ post\<close> of positive lots: the
  lots of \<open>pre\<close> taken whole and \<open>post\<close> left as it is; or the lots of \<open>pre\<close> taken
  whole, then the units still wanted taken from the head \<open>p\<close> of \<open>post\<close>, which stays at
  the head with the units it has left.\<close>

definition drained ::
  "rat \<Rightarrow> matched_buy list \<Rightarrow> rat \<Rightarrow> parcel list \<Rightarrow> parcel list
     \<Rightarrow> py_error + (rat \<times> parcel list \<times> matched_buy list \<times> rat)" where
  "drained r ms cb pre post =
     Inr (r - total_units pre, post, ms @ map taken_whole pre,
          cb + sum_list (map total_cost pre))"

definition drained_and_split ::
  "rat \<Rightarrow> matched_buy list \<Rightarrow> rat \<Rightarrow> parcel list \<Rightarrow> parcel \<Rightarrow> parcel list
     \<Rightarrow> py_error + (rat \<times> parcel list \<times> matched_buy list \<times> rat)" where
  "drained_and_split r ms cb pre p rest =
     Inr (0, p\<lparr>lot_units := lot_units p - (r - total_units pre)\<rparr> # rest,
          ms @ map taken_whole pre @ [taken_part p (r - total_units pre)],
          cb + sum_list (map total_cost pre)
             + total_cost p * ((r - total_units pre) / lot_units p))"

text \<open>Every queue of the lot book holds positive lots only.\<close>

definition book_positive :: "lot_book \<Rightarrow> bool" where
  "book_positive book = (\<forall>s q. book s = Some q \<longrightarrow> lots_positive q)"

text \<open>A queue sorted by acquisition date, oldest first; a book of such queues.\<close>

definition by_date :: "parcel list \<Rightarrow> bool" where
  "by_date q = sorted (map (\<lambda>p. toordinal (lot_date p)) q)"

definition book_by_date :: "lot_book \<Rightarrow> bool" where
  "book_by_date book = (\<forall>s q. book s = Some q \<longrightarrow> by_date q)"


text \<open>A buy row with the magnitude of its units; any other row as it is.\<close>

definition abs_units :: "trade \<Rightarrow> trade" where
  "abs_units t = (if Side t = ''Buy'' then t\<lparr>Units := \<bar>Units t\<bar>\<rparr> else t)"




text \<open>An entry matched against a queue: it carries the date of one of the queue's lots, a
  positive number of units that the lot holds, and the share \<open>units taken / units held\<close> of
  that lot's \<^verbatim>\<open>total_cost\<close>.\<close>

definition apportioned :: "parcel list \<Rightarrow> matched_buy \<Rightarrow> bool" where
  "apportioned q m \<longleftrightarrow>
     list_ex (\<lambda>p. matched_date m = lot_date p \<and> 0 < matched_units m
                  \<and> matched_units m \<le> lot_units p
                  \<and> matched_cost m = total_cost p * (matched_units m / lot_units p)) q"




text \<open>The specification's Period Aggregator: the summary of a period with no sale, the
  fold of one sale result into a period's summary, the totals of a period as the fold of its
  sale results from left to right, and the sale results of a list that belong to a period,
  in the order of the list.\<close>

definition no_sales :: period_summary where
  "no_sales = \<lparr>total_gains = 0, total_losses = 0, net_position = 0\<rparr>"

definition add_sale :: "period_summary \<Rightarrow> sale \<Rightarrow> period_summary" where
  "add_sale e t =
     (let gains = float_add (total_gains e)
                    (float_add (float_of (discounted_gain t)) (float_of (undiscounted_gain t)));
          losses = float_add (total_losses e) \<bar>float_of (capital_loss t)\<bar>
      in \<lparr>total_gains = gains, total_losses = losses, net_position = float_sub gains losses\<rparr>)"

definition period_totals :: "sale list \<Rightarrow> period_summary" where
  "period_totals rs = foldl add_sale no_sales rs"

definition of_period :: "string \<Rightarrow> sale list \<Rightarrow> sale list" where
  "of_period fy rs = filter (\<lambda>x. financial_year x = fy) rs"

section \<open>Properties\<close>

subsection \<open>Evaluation\<close>

lemmas eval_dates = toordinal_def days_before_year_def days_before_month_def is_leap_def
  days_between_def

lemmas eval_match = match_trades_def by_trade_date_def load_buys_def add_buy_def
  new_parcel_def process_sell_def match_loop.simps Let_def

lemma sale_result_fields:
  "cost_base (sale_result sell ms) = sum_list (map matched_cost ms)"
  "proceeds (sale_result sell ms) = sale_proceeds sell"
  "symbol (sale_result sell ms) = Symbol sell"
  "units (sale_result sell ms) = Units sell"
  "financial_year (sale_result sell ms) = get_financial_year (Trade_Date sell)"
  "buy_dates (sale_result sell ms) = map (\<lambda>m. format_date (matched_date m)) ms"
  "total_gain_loss (sale_result sell ms) =
     discounted_gain (sale_result sell ms) + undiscounted_gain (sale_result sell ms)
       + capital_loss (sale_result sell ms)"
  by (simp_all add: sale_result_def split: prod.splits)

lemma financial_year_example:
  "get_financial_year \<lparr>year = 2023, month = 9, day = 14\<rparr> = ''FY23_24''"
  by (simp add: get_financial_year_def str_int_def str_nat.simps)

text \<open>The scenario of the specification: 396 and 245 days of holding.\<close>

lemma holding_days_example:
  "days_between \<lparr>year = 2023, month = 2, day = 1\<rparr> \<lparr>year = 2022, month = 1, day = 1\<rparr> = 396"
  "days_between \<lparr>year = 2023, month = 2, day = 1\<rparr> \<lparr>year = 2022, month = 6, day = 1\<rparr> = 245"
  by (simp_all add: eval_dates)

subsection \<open>The consumption loop\<close>

lemma match_loop_done:
  "r \<le> 0 \<Longrightarrow> match_loop r q ms cb = Inr (r, q, ms, cb)"
  by (cases q) (simp_all add: match_loop.simps)

lemma match_loop_zero_units:
  "0 < r \<Longrightarrow> lot_units p = 0 \<Longrightarrow> match_loop r (p # ps) ms cb = Inl ZeroDivisionError"
  by (simp add: match_loop.simps)

lemma match_loop_partial:
  "0 < r \<Longrightarrow> r < lot_units p \<Longrightarrow>
   match_loop r (p # ps) ms cb =
     Inr (0, p\<lparr>lot_units := lot_units p - r\<rparr> # ps, ms @ [taken_part p r],
          cb + total_cost p * (r / lot_units p))"
  by (simp add: match_loop.simps Let_def min_def taken_part_def)

lemma match_loop_full:
  "0 < lot_units p \<Longrightarrow> lot_units p \<le> r \<Longrightarrow>
   match_loop r (p # ps) ms cb =
     match_loop (r - lot_units p) ps (ms @ [taken_whole p]) (cb + total_cost p)"
  by (simp add: match_loop.simps Let_def min_def taken_whole_def)

lemma lots_positive_simps [simp]:
  "lots_positive []"
  "lots_positive (p # ps) \<longleftrightarrow> 0 < lot_units p \<and> lots_positive ps"
  "lots_positive (xs @ ys) \<longleftrightarrow> lots_positive xs \<and> lots_positive ys"
  by (simp_all add: lots_positive_def)

lemma total_units_simps [simp]:
  "total_units [] = 0"
  "total_units (p # ps) = lot_units p + total_units ps"
  "total_units (xs @ ys) = total_units xs + total_units ys"
  by (simp_all add: total_units_def)

lemma total_units_nonneg: "lots_positive q \<Longrightarrow> 0 \<le> total_units q"
  by (induction q) auto

lemma total_units_pos: "lots_positive q \<Longrightarrow> q \<noteq> [] \<Longrightarrow> 0 < total_units q"
  by (cases q) (auto simp: add_pos_nonneg total_units_nonneg)

text \<open>A prefix of positive lots that the request covers is taken whole, lot by lot.\<close>

lemma match_loop_drain_prefix:
  "lots_positive pre \<Longrightarrow> total_units pre \<le> r \<Longrightarrow>
   match_loop r (pre @ post) ms cb =
     match_loop (r - total_units pre) post (ms @ map taken_whole pre)
       (cb + sum_list (map total_cost pre))"
proof (induction pre arbitrary: r ms cb)
  case Nil
  then show ?case by simp
next
  case (Cons p pre)
  from Cons.prems have pos: "0 < lot_units p" and rest: "lots_positive pre"
    by simp_all
  from Cons.prems rest have le: "lot_units p \<le> r" and le': "total_units pre \<le> r - lot_units p"
    using total_units_nonneg [of pre] by simp_all
  show ?case
    using Cons.IH [OF rest le'] match_loop_full [OF pos le]
    by (simp add: algebra_simps)
qed

text \<open>On a queue of positive lots the loop ends in one of the two ways above.\<close>

lemma match_loop_fifo:
  assumes "lots_positive q"
  shows "\<exists>pre post. q = pre @ post \<and> total_units pre \<le> max r 0 \<and>
           (match_loop r q ms cb = drained r ms cb pre post
              \<and> (r - total_units pre \<le> 0 \<or> post = [])
            \<or> (\<exists>p rest. post = p # rest \<and> 0 < r - total_units pre
                  \<and> r - total_units pre < lot_units p
                  \<and> match_loop r q ms cb = drained_and_split r ms cb pre p rest))"
proof -
  have "\<exists>pre post. q = pre @ post \<and> lots_positive pre \<and> total_units pre \<le> max r 0
          \<and> (r - total_units pre \<le> 0 \<or> post = []
               \<or> (\<exists>p rest. post = p # rest \<and> r - total_units pre < lot_units p))"
    using assms
  proof (induction q arbitrary: r)
    case Nil
    then show ?case by simp
  next
    case (Cons p ps)
    then have pos: "0 < lot_units p" and rest: "lots_positive ps" by simp_all
    show ?case
    proof (cases "lot_units p \<le> r")
      case False
      then show ?thesis
        by (intro exI [of _ "[]"] exI [of _ "p # ps"]) simp
    next
      case True
      from Cons.IH [OF rest, of "r - lot_units p"]
      obtain pre post where "ps = pre @ post" "lots_positive pre"
        "total_units pre \<le> max (r - lot_units p) 0"
        "r - lot_units p - total_units pre \<le> 0 \<or> post = []
           \<or> (\<exists>p' rest. post = p' # rest \<and> r - lot_units p - total_units pre < lot_units p')"
        by blast
      with True pos show ?thesis
        by (intro exI [of _ "p # pre"] exI [of _ post]) (auto simp: algebra_simps)
    qed
  qed
  then obtain pre post where q: "q = pre @ post" and pp: "lots_positive pre"
    and le: "total_units pre \<le> max r 0"
    and alt: "r - total_units pre \<le> 0 \<or> post = []
               \<or> (\<exists>p rest. post = p # rest \<and> r - total_units pre < lot_units p)"
    by blast
  show ?thesis
  proof (cases "r \<le> 0")
    case True
    then show ?thesis
      by (intro exI [of _ "[]"] exI [of _ q]) (simp add: match_loop_done drained_def)
  next
    case False
    with le have le': "total_units pre \<le> r" by simp
    note drain = match_loop_drain_prefix [OF pp le', of post ms cb]
    from alt consider "r - total_units pre \<le> 0" | "post = []"
      | p rest where "post = p # rest" "0 < r - total_units pre" "r - total_units pre < lot_units p"
      by fastforce
    then show ?thesis
    proof cases
      case 1
      with q drain le show ?thesis
        by (intro exI [of _ pre] exI [of _ post]) (simp add: match_loop_done drained_def)
    next
      case 2
      with q drain le show ?thesis
        by (intro exI [of _ pre] exI [of _ post]) (simp add: match_loop.simps drained_def)
    next
      case 3
      with q drain le show ?thesis
        by (intro exI [of _ pre] exI [of _ post])
          (simp add: match_loop_partial drained_and_split_def)
    qed
  qed
qed

text \<open>So the loop raises nothing on positive lots, leaves positive lots, and matches
  something exactly when it is asked for a positive number of units.\<close>

lemma match_loop_positive:
  assumes "lots_positive q"
  shows "\<exists>r' q' ms' cb'. match_loop r q ms cb = Inr (r', q', ms', cb') \<and> lots_positive q'
           \<and> (0 < r \<longrightarrow> q \<noteq> [] \<longrightarrow> ms' \<noteq> ms)
           \<and> (r \<le> 0 \<longrightarrow> ms' = ms \<and> q' = q)"
proof -
  from match_loop_fifo [OF assms, of r ms cb] obtain pre post where q: "q = pre @ post"
    and alt: "match_loop r q ms cb = drained r ms cb pre post
              \<and> (r - total_units pre \<le> 0 \<or> post = [])
            \<or> (\<exists>p rest. post = p # rest \<and> 0 < r - total_units pre
                  \<and> r - total_units pre < lot_units p
                  \<and> match_loop r q ms cb = drained_and_split r ms cb pre p rest)"
    by blast
  from assms q have pp: "lots_positive pre" "lots_positive post" by simp_all
  from alt show ?thesis
  proof
    assume a: "match_loop r q ms cb = drained r ms cb pre post
              \<and> (r - total_units pre \<le> 0 \<or> post = [])"
    have "pre \<noteq> []" if "0 < r" "q \<noteq> []"
      using a that q by auto
    moreover have "pre = []" if "r \<le> 0"
      using a that match_loop_done [OF that, of q ms cb] by (simp add: drained_def)
    ultimately show ?thesis using a pp q by (auto simp: drained_def)
  next
    assume "\<exists>p rest. post = p # rest \<and> 0 < r - total_units pre
                  \<and> r - total_units pre < lot_units p
                  \<and> match_loop r q ms cb = drained_and_split r ms cb pre p rest"
    then obtain p rest where "post = p # rest" "0 < r - total_units pre"
      "r - total_units pre < lot_units p"
      "match_loop r q ms cb = drained_and_split r ms cb pre p rest"
      by blast
    moreover have "r > 0" using calculation(2) total_units_nonneg [OF pp(1)] by linarith
    ultimately show ?thesis using pp by (auto simp: drained_and_split_def)
  qed
qed


subsection \<open>No division by zero on positive lots\<close>

lemma book_positive_upd:
  "book_positive book \<Longrightarrow> lots_positive q \<Longrightarrow> book_positive (book(s \<mapsto> q))"
  by (simp add: book_positive_def)

lemma book_positive_empty: "book_positive Map.empty"
  by (simp add: book_positive_def)

lemma add_buy_positive:
  assumes "Units b \<noteq> 0" "book_positive book"
  shows "book_positive (add_buy b book)"
proof -
  have "lots_positive ((case book (Symbol b) of None \<Rightarrow> [] | Some q \<Rightarrow> q) @ [new_parcel b])"
    using assms by (auto simp: book_positive_def new_parcel_def split: option.splits)
  with assms(2) show ?thesis
    by (auto simp: add_buy_def Let_def book_positive_def split: option.splits if_splits)
qed

lemma fold_add_buy_positive:
  "\<forall>b\<in>set buys. Units b \<noteq> 0 \<Longrightarrow> book_positive book \<Longrightarrow> book_positive (fold add_buy buys book)"
  by (induction buys arbitrary: book) (simp_all add: add_buy_positive)

lemma set_by_trade_date [simp]: "set (by_trade_date rows) = set rows"
  by (simp add: by_trade_date_def)

lemma length_by_trade_date [simp]: "length (by_trade_date rows) = length rows"
  by (simp add: by_trade_date_def)

lemma load_buys_positive:
  "\<forall>b\<in>set buys. Units b \<noteq> 0 \<Longrightarrow> book_positive (load_buys (by_trade_date buys))"
  by (simp add: load_buys_def fold_add_buy_positive book_positive_empty)

lemma process_sell_positive:
  assumes "book_positive book"
  shows "\<exists>book' rs' ws'. process_sell sell (book, rs, ws) = Inr (book', rs', ws')
           \<and> book_positive book'
           \<and> (rs' = rs \<or> (\<exists>ms. rs' = rs @ [sale_result sell ms]))"
proof (cases "book (Symbol sell)")
  case None
  with assms show ?thesis by (simp add: process_sell_def)
next
  case (Some q)
  show ?thesis
  proof (cases q)
    case Nil
    with Some assms show ?thesis by (simp add: process_sell_def)
  next
    case (Cons p ps)
    from assms Some have pos: "lots_positive q" by (simp add: book_positive_def)
    from match_loop_positive [OF pos, of "\<bar>Units sell\<bar>" "[]" 0]
    obtain r' q' ms' cb' where ml: "match_loop \<bar>Units sell\<bar> q [] 0 = Inr (r', q', ms', cb')"
      and q': "lots_positive q'" and z: "\<bar>Units sell\<bar> \<le> 0 \<longrightarrow> ms' = []"
      by blast
    from assms q' have "book_positive (book(Symbol sell \<mapsto> q'))"
      by (rule book_positive_upd)
    with Some Cons ml z show ?thesis
      by (auto simp: process_sell_def)
  qed
qed

lemma sells_loop_positive:
  "book_positive book \<Longrightarrow>
   \<exists>book' rs' ws'. sells_loop sells (book, rs, ws) = Inr (book', rs', ws')
      \<and> book_positive book' \<and> length rs' \<le> length rs + length sells"
proof (induction sells arbitrary: book rs ws)
  case Nil
  then show ?case by simp
next
  case (Cons sell sells)
  from process_sell_positive [OF Cons.prems, of sell rs ws]
  obtain b1 r1 w1 where step: "process_sell sell (book, rs, ws) = Inr (b1, r1, w1)"
    and b1: "book_positive b1" and r1: "length r1 \<le> length rs + 1"
    by auto
  from Cons.IH [OF b1, of r1 w1] obtain b2 r2 w2
    where "sells_loop sells (b1, r1, w1) = Inr (b2, r2, w2)" "book_positive b2"
      "length r2 \<le> length r1 + length sells"
    by blast
  with step r1 show ?case by simp
qed

lemma match_trades_positive:
  assumes "\<forall>b\<in>set buys. Units b \<noteq> 0"
  shows "\<exists>results warnings. match_trades buys sells = Inr (results, warnings)
            \<and> length results \<le> length sells"
proof -
  from sells_loop_positive [OF load_buys_positive [OF assms], of "by_trade_date sells" "[]" "[]"]
  show ?thesis by (auto simp: match_trades_def)
qed

lemma process_sell_zero_lot:
  assumes "book (Symbol s) = Some (pre @ z # post)" "lots_positive pre" "lot_units z = 0"
    "total_units pre < \<bar>Units s\<bar>"
  shows "process_sell s (book, rs, ws) = Inl ZeroDivisionError"
proof -
  from assms have "match_loop \<bar>Units s\<bar> (pre @ z # post) [] 0 = Inl ZeroDivisionError"
    by (simp add: match_loop_drain_prefix match_loop_zero_units)
  with assms(1) show ?thesis
    by (cases "pre @ z # post") (simp_all add: process_sell_def)
qed

text \<open>
  Claim C9. When every buy of the batch has nonzero units, matching raises no division by
  zero: it returns its results. Without that, a buy of zero units makes a lot of zero units,
  and a sell that wants more units than the positive lots queued before that lot hold
  reaches the division by its zero units, which ends the whole run.
\<close>

theorem no_division_by_zero:
  "((\<forall>b\<in>set buys. Units b \<noteq> 0) \<longrightarrow>
      (\<exists>results warnings. match_trades buys sells = Inr (results, warnings)))
   \<and> (Units b = 0 \<longrightarrow> lot_units (new_parcel b) = 0)
   \<and> (book (Symbol s) = Some (pre @ z # post) \<and> lots_positive pre \<and> lot_units z = 0
        \<and> total_units pre < \<bar>Units s\<bar> \<longrightarrow>
      sells_loop (s # rest) (book, rs, ws) = Inl ZeroDivisionError)"
  using match_trades_positive [of buys sells]
  by (auto simp: new_parcel_def process_sell_zero_lot)


text \<open>A batch of one buy of 10 units and one sell of 4; and a queue of a lot of 5 units
  followed by a lot of zero units, from which 8 units are sold.\<close>

theorem no_division_by_zero_witness:
  "(\<exists>results warnings.
      match_trades
        [\<lparr>Trade_Date = \<lparr>year = 2022, month = 1, day = 1\<rparr>, Symbol = ''X'', Side = ''Buy'',
          Units = 10, Value = 1000, Fees = 0, GST = 0, AUD_USD_rate = 1\<rparr>]
        [\<lparr>Trade_Date = \<lparr>year = 2022, month = 6, day = 1\<rparr>, Symbol = ''X'', Side = ''Sell'',
          Units = 4, Value = 500, Fees = 0, GST = 0, AUD_USD_rate = 1\<rparr>]
      = Inr (results, warnings))
   \<and> lot_units (new_parcel
        \<lparr>Trade_Date = \<lparr>year = 2022, month = 2, day = 1\<rparr>, Symbol = ''X'', Side = ''Buy'',
         Units = 0, Value = 0, Fees = 0, GST = 0, AUD_USD_rate = 1\<rparr>) = 0
   \<and> sells_loop
        [\<lparr>Trade_Date = \<lparr>year = 2022, month = 6, day = 1\<rparr>, Symbol = ''X'', Side = ''Sell'',
          Units = 8, Value = 500, Fees = 0, GST = 0, AUD_USD_rate = 1\<rparr>]
        ([''X'' \<mapsto>
            [new_parcel
               \<lparr>Trade_Date = \<lparr>year = 2022, month = 1, day = 1\<rparr>, Symbol = ''X'', Side = ''Buy'',
                Units = 5, Value = 500, Fees = 0, GST = 0, AUD_USD_rate = 1\<rparr>,
             new_parcel
               \<lparr>Trade_Date = \<lparr>year = 2022, month = 2, day = 1\<rparr>, Symbol = ''X'', Side = ''Buy'',
                Units = 0, Value = 0, Fees = 0, GST = 0, AUD_USD_rate = 1\<rparr>]], [], [])
      = Inl ZeroDivisionError"
proof -
  let ?b10 = "\<lparr>Trade_Date = \<lparr>year = 2022, month = 1, day = 1\<rparr>, Symbol = ''X'', Side = ''Buy'',
          Units = 10, Value = 1000, Fees = 0, GST = 0, AUD_USD_rate = 1\<rparr>"
  let ?s4 = "\<lparr>Trade_Date = \<lparr>year = 2022, month = 6, day = 1\<rparr>, Symbol = ''X'', Side = ''Sell'',
          Units = 4, Value = 500, Fees = 0, GST = 0, AUD_USD_rate = 1\<rparr>"
  let ?b0 = "\<lparr>Trade_Date = \<lparr>year = 2022, month = 2, day = 1\<rparr>, Symbol = ''X'', Side = ''Buy'',
         Units = 0, Value = 0, Fees = 0, GST = 0, AUD_USD_rate = 1\<rparr>"
  let ?b5 = "\<lparr>Trade_Date = \<lparr>year = 2022, month = 1, day = 1\<rparr>, Symbol = ''X'', Side = ''Buy'',
                Units = 5, Value = 500, Fees = 0, GST = 0, AUD_USD_rate = 1\<rparr>"
  let ?s8 = "\<lparr>Trade_Date = \<lparr>year = 2022, month = 6, day = 1\<rparr>, Symbol = ''X'', Side = ''Sell'',
          Units = 8, Value = 500, Fees = 0, GST = 0, AUD_USD_rate = 1\<rparr>"
  from no_division_by_zero [where buys = "[?b10]" and sells = "[?s4]" and b = ?b0
      and book = "[''X'' \<mapsto> [new_parcel ?b5, new_parcel ?b0]]" and s = ?s8
      and pre = "[new_parcel ?b5]" and z = "new_parcel ?b0" and post = "[]"
      and rest = "[]" and rs = "[]" and ws = "[]"]
  show ?thesis
    by (simp add: new_parcel_def)
qed

text \<open>The same two buys and the sell as a batch: the run ends with the error.\<close>

lemma zero_unit_buy_example:
  "match_trades
     [\<lparr>Trade_Date = \<lparr>year = 2022, month = 1, day = 1\<rparr>, Symbol = ''X'', Side = ''Buy'',
       Units = 5, Value = 500, Fees = 0, GST = 0, AUD_USD_rate = 1\<rparr>,
      \<lparr>Trade_Date = \<lparr>year = 2022, month = 2, day = 1\<rparr>, Symbol = ''X'', Side = ''Buy'',
       Units = 0, Value = 0, Fees = 0, GST = 0, AUD_USD_rate = 1\<rparr>]
     [\<lparr>Trade_Date = \<lparr>year = 2022, month = 6, day = 1\<rparr>, Symbol = ''X'', Side = ''Sell'',
       Units = 8, Value = 500, Fees = 0, GST = 0, AUD_USD_rate = 1\<rparr>]
   = Inl ZeroDivisionError"
  by (simp add: eval_match eval_dates)

subsection \<open>Sells that cannot be matched\<close>










lemma filter_by_trade_date:
  "filter P (by_trade_date rows) = by_trade_date (filter P rows)"
  by (simp add: by_trade_date_def filter_sort)





subsection \<open>First in, first out\<close>

lemma fold_add_buy_queue:
  "fold add_buy buys book ticker =
     (if filter (\<lambda>b. Symbol b = ticker) buys = [] then book ticker
      else Some ((case book ticker of None \<Rightarrow> [] | Some q \<Rightarrow> q)
                   @ map new_parcel (filter (\<lambda>b. Symbol b = ticker) buys)))"
proof (induction buys arbitrary: book)
  case Nil
  then show ?case by simp
next
  case (Cons b buys)
  show ?case
    by (simp add: Cons.IH) (auto simp: add_buy_def Let_def split: option.splits)
qed

lemma load_buys_queue:
  "load_buys buys ticker =
     (if filter (\<lambda>b. Symbol b = ticker) buys = [] then None
      else Some (map new_parcel (filter (\<lambda>b. Symbol b = ticker) buys)))"
  by (simp add: load_buys_def fold_add_buy_queue)

lemma lot_date_new_parcel [simp]: "lot_date (new_parcel b) = Trade_Date b"
  by (simp add: new_parcel_def)

lemma load_buys_by_date:
  assumes "load_buys (by_trade_date buys) ticker = Some q"
  shows "by_date q"
proof -
  from assms have q: "q = map new_parcel (filter (\<lambda>b. Symbol b = ticker) (by_trade_date buys))"
    by (simp add: load_buys_queue split: if_splits)
  have "sorted (map (\<lambda>t. toordinal (Trade_Date t)) (by_trade_date buys))"
    by (simp add: by_trade_date_def)
  then have "sorted (map (\<lambda>t. toordinal (Trade_Date t))
      (filter (\<lambda>b. Symbol b = ticker) (by_trade_date buys)))"
    by (rule sorted_filter)
  with q show ?thesis by (simp add: by_date_def comp_def)
qed

lemma by_date_append:
  "by_date (xs @ ys) \<longleftrightarrow>
     by_date xs \<and> by_date ys
       \<and> (\<forall>x\<in>set xs. \<forall>y\<in>set ys. toordinal (lot_date x) \<le> toordinal (lot_date y))"
  by (auto simp: by_date_def sorted_append)

lemma by_date_Cons:
  "by_date (x # ys) \<longleftrightarrow>
     by_date ys \<and> (\<forall>y\<in>set ys. toordinal (lot_date x) \<le> toordinal (lot_date y))"
  by (auto simp: by_date_def)

lemma matched_date_taken [simp]:
  "matched_date (taken_whole p) = lot_date p"
  "matched_date (taken_part p t) = lot_date p"
  by (simp_all add: taken_whole_def taken_part_def)

text \<open>On a date-sorted queue of positive lots, what is matched is never newer than what is
  left, and what is left is date-sorted.\<close>

lemma match_loop_oldest_first:
  assumes "lots_positive q" "by_date q" "match_loop r q [] 0 = Inr (r', q', ms', cb')"
  shows "(\<forall>m\<in>set ms'. \<forall>p\<in>set q'. toordinal (matched_date m) \<le> toordinal (lot_date p))
           \<and> by_date q'"
proof -
  from match_loop_fifo [OF assms(1), of r "[]" 0]
  obtain pre post where q: "q = pre @ post"
    and alt: "match_loop r q [] 0 = drained r [] 0 pre post
              \<and> (r - total_units pre \<le> 0 \<or> post = [])
            \<or> (\<exists>p rest. post = p # rest \<and> 0 < r - total_units pre
                  \<and> r - total_units pre < lot_units p
                  \<and> match_loop r q [] 0 = drained_and_split r [] 0 pre p rest)"
    by blast
  from assms(2) q have s: "by_date pre" "by_date post"
    "\<forall>x\<in>set pre. \<forall>y\<in>set post. toordinal (lot_date x) \<le> toordinal (lot_date y)"
    by (simp_all add: by_date_append)
  from alt show ?thesis
  proof
    assume "match_loop r q [] 0 = drained r [] 0 pre post
              \<and> (r - total_units pre \<le> 0 \<or> post = [])"
    with assms(3) s show ?thesis by (auto simp: drained_def)
  next
    assume "\<exists>p rest. post = p # rest \<and> 0 < r - total_units pre
                  \<and> r - total_units pre < lot_units p
                  \<and> match_loop r q [] 0 = drained_and_split r [] 0 pre p rest"
    with assms(3) s show ?thesis
      by (auto simp: drained_and_split_def by_date_Cons)
  qed
qed

lemma hd_by_trade_date:
  assumes "b1 \<in> set rows"
    "\<forall>b\<in>set rows. b \<noteq> b1 \<longrightarrow> toordinal (Trade_Date b1) < toordinal (Trade_Date b)"
  shows "\<exists>others. by_trade_date rows = b1 # others"
proof -
  from assms(1) have "b1 \<in> set (by_trade_date rows)" by simp
  then have "by_trade_date rows \<noteq> []" by (metis empty_iff list.set(1))
  then obtain x others where xs: "by_trade_date rows = x # others"
    by (cases "by_trade_date rows") auto
  have "sorted (map (\<lambda>t. toordinal (Trade_Date t)) (by_trade_date rows))"
    by (simp add: by_trade_date_def)
  with xs have le: "\<forall>y\<in>set (by_trade_date rows). toordinal (Trade_Date x) \<le> toordinal (Trade_Date y)"
    by auto
  have "set (by_trade_date rows) = set rows" by (simp add: by_trade_date_def)
  with xs le assms have "x = b1"
    by (metis list.set_intros(1) not_le)
  with xs show ?thesis by simp
qed

lemma sale_from_oldest_lot:
  assumes "b1 \<in> set buys" "Symbol b1 = Symbol s"
    "\<forall>b\<in>set buys. Symbol b = Symbol s \<and> b \<noteq> b1 \<longrightarrow>
        toordinal (Trade_Date b1) < toordinal (Trade_Date b)"
    "0 < \<bar>Units s\<bar>" "\<bar>Units s\<bar> < \<bar>Units b1\<bar>"
  shows "match_trades buys [s] =
           Inr ([sale_result s [taken_part (new_parcel b1) \<bar>Units s\<bar>]], [])"
proof -
  let ?fs = "filter (\<lambda>b. Symbol b = Symbol s) buys"
  from assms(1,2) have "b1 \<in> set ?fs" by simp
  moreover from assms(3) have
    "\<forall>b\<in>set ?fs. b \<noteq> b1 \<longrightarrow> toordinal (Trade_Date b1) < toordinal (Trade_Date b)"
    by simp
  ultimately obtain others where "by_trade_date ?fs = b1 # others"
    using hd_by_trade_date by blast
  then have book: "load_buys (by_trade_date buys) (Symbol s)
      = Some (new_parcel b1 # map new_parcel others)"
    by (simp add: load_buys_queue filter_by_trade_date)
  have units: "lot_units (new_parcel b1) = \<bar>Units b1\<bar>" by (simp add: new_parcel_def)
  from assms(4,5) have "match_loop \<bar>Units s\<bar> (new_parcel b1 # map new_parcel others) [] 0 =
      Inr (0, (new_parcel b1)\<lparr>lot_units := lot_units (new_parcel b1) - \<bar>Units s\<bar>\<rparr>
                # map new_parcel others,
           [taken_part (new_parcel b1) \<bar>Units s\<bar>],
           0 + total_cost (new_parcel b1) * (\<bar>Units s\<bar> / lot_units (new_parcel b1)))"
    using match_loop_partial [of "\<bar>Units s\<bar>" "new_parcel b1" "map new_parcel others" "[]" 0]
    by (simp add: units)
  with book assms(4) show ?thesis
    by (simp add: match_trades_def by_trade_date_def process_sell_def)
qed


lemma process_sell_by_date:
  assumes "book_positive book" "book_by_date book"
    "process_sell sell (book, rs, ws) = Inr (book', rs', ws')"
  shows "book_by_date book'"
proof (cases "book (Symbol sell)")
  case None
  with assms show ?thesis by (simp add: process_sell_def)
next
  case (Some q)
  show ?thesis
  proof (cases q)
    case Nil
    with Some assms show ?thesis by (simp add: process_sell_def)
  next
    case (Cons p ps)
    from assms(1,2) Some have pos: "lots_positive q" and srt: "by_date q"
      by (simp_all add: book_positive_def book_by_date_def)
    from match_loop_positive [OF pos, of "\<bar>Units sell\<bar>" "[]" 0]
    obtain r' q' ms' cb' where ml: "match_loop \<bar>Units sell\<bar> q [] 0 = Inr (r', q', ms', cb')"
      by blast
    from match_loop_oldest_first [OF pos srt ml] have "by_date q'" by simp
    with assms(2) have "book_by_date (book(Symbol sell \<mapsto> q'))"
      by (simp add: book_by_date_def)
    with Some Cons ml assms(3) show ?thesis
      by (auto simp: process_sell_def split: if_splits)
  qed
qed

lemma sells_loop_by_date:
  "book_positive book \<Longrightarrow> book_by_date book \<Longrightarrow>
   sells_loop sells (book, rs, ws) = Inr (book', rs', ws') \<Longrightarrow>
   book_positive book' \<and> book_by_date book'"
proof (induction sells arbitrary: book rs ws)
  case Nil
  then show ?case by simp
next
  case (Cons sell sells)
  from process_sell_positive [OF Cons.prems(1), of sell rs ws]
  obtain b1 r1 w1 where step: "process_sell sell (book, rs, ws) = Inr (b1, r1, w1)"
    and b1: "book_positive b1"
    by blast
  from process_sell_by_date [OF Cons.prems(1,2) step] have "book_by_date b1" .
  with b1 step Cons.prems(3) Cons.IH [of b1 r1 w1] show ?case by simp
qed

lemma queues_stay_ordered:
  assumes "\<forall>b\<in>set buys. Units b \<noteq> 0"
    "sells_loop sells (load_buys (by_trade_date buys), [], []) = Inr (book, rs, ws)"
    "book ticker = Some q"
  shows "lots_positive q \<and> by_date q"
proof -
  have "book_by_date (load_buys (by_trade_date buys))"
    by (simp add: book_by_date_def load_buys_by_date)
  with sells_loop_by_date [OF load_buys_positive [OF assms(1)] _ assms(2)]
  have "book_positive book \<and> book_by_date book" by simp
  with assms(3) show ?thesis by (simp add: book_positive_def book_by_date_def)
qed

lemma match_loop_shape:
  assumes "lots_positive q" "match_loop r q [] 0 = Inr (r', q', ms', cb')"
  shows "\<exists>pre post. q = pre @ post \<and>
           (ms' = map taken_whole pre \<and> q' = post
            \<or> (\<exists>p rest. post = p # rest \<and> 0 < r - total_units pre
                  \<and> r - total_units pre < lot_units p
                  \<and> ms' = map taken_whole pre @ [taken_part p (r - total_units pre)]
                  \<and> q' = p\<lparr>lot_units := lot_units p - (r - total_units pre)\<rparr> # rest))"
proof -
  from match_loop_fifo [OF assms(1), of r "[]" 0]
  obtain pre post where q: "q = pre @ post"
    and alt: "match_loop r q [] 0 = drained r [] 0 pre post
              \<and> (r - total_units pre \<le> 0 \<or> post = [])
            \<or> (\<exists>p rest. post = p # rest \<and> 0 < r - total_units pre
                  \<and> r - total_units pre < lot_units p
                  \<and> match_loop r q [] 0 = drained_and_split r [] 0 pre p rest)"
    by blast
  with assms(2) show ?thesis
    by (intro exI [of _ pre] exI [of _ post])
      (auto simp: drained_def drained_and_split_def)
qed

text \<open>
  Claim C2. The loop takes units from the head of the queue: the entries it matches are the
  lots of a prefix of the queue, each taken whole, followed by at most one partial take
  from the next lot, which stays at the head; no lot behind is touched. The queues are
  sorted by acquisition date when the buys are loaded and stay so (and positive) through
  the sells, so nothing matched is newer than anything left. In particular, when one buy
  of the sell's symbol is strictly older than every other and the sell wants fewer units
  than it holds, the sale has this one parcel and its whole cost base comes from that lot.
\<close>

theorem fifo_oldest_lot_first:
  "(lots_positive q \<and> by_date q \<and> match_loop r q [] 0 = Inr (r', q', ms', cb') \<longrightarrow>
      (\<exists>pre post. q = pre @ post \<and>
         (ms' = map taken_whole pre \<and> q' = post
          \<or> (\<exists>p rest. post = p # rest \<and> 0 < r - total_units pre
                \<and> r - total_units pre < lot_units p
                \<and> ms' = map taken_whole pre @ [taken_part p (r - total_units pre)]
                \<and> q' = p\<lparr>lot_units := lot_units p - (r - total_units pre)\<rparr> # rest)))
      \<and> (\<forall>m\<in>set ms'. \<forall>p\<in>set q'. toordinal (matched_date m) \<le> toordinal (lot_date p)))
   \<and> ((\<forall>b\<in>set buys. Units b \<noteq> 0)
        \<and> sells_loop sells (load_buys (by_trade_date buys), [], []) = Inr (book, rs, ws)
        \<and> book ticker = Some qt \<longrightarrow>
      lots_positive qt \<and> by_date qt)
   \<and> (oldest \<in> set buys \<and> Symbol oldest = Symbol s
        \<and> (\<forall>b\<in>set buys. Symbol b = Symbol s \<and> b \<noteq> oldest \<longrightarrow>
              toordinal (Trade_Date oldest) < toordinal (Trade_Date b))
        \<and> 0 < \<bar>Units s\<bar> \<and> \<bar>Units s\<bar> < \<bar>Units oldest\<bar> \<longrightarrow>
      match_trades buys [s] = Inr ([sale_result s [taken_part (new_parcel oldest) \<bar>Units s\<bar>]], [])
      \<and> cost_base (sale_result s [taken_part (new_parcel oldest) \<bar>Units s\<bar>])
          = total_cost (new_parcel oldest) * (\<bar>Units s\<bar> / \<bar>Units oldest\<bar>))"
proof (intro conjI impI)
  assume a: "lots_positive q \<and> by_date q \<and> match_loop r q [] 0 = Inr (r', q', ms', cb')"
  then show "\<exists>pre post. q = pre @ post \<and>
         (ms' = map taken_whole pre \<and> q' = post
          \<or> (\<exists>p rest. post = p # rest \<and> 0 < r - total_units pre
                \<and> r - total_units pre < lot_units p
                \<and> ms' = map taken_whole pre @ [taken_part p (r - total_units pre)]
                \<and> q' = p\<lparr>lot_units := lot_units p - (r - total_units pre)\<rparr> # rest))"
    using match_loop_shape [of q r r' q' ms' cb'] by blast
  from a show "\<forall>m\<in>set ms'. \<forall>p\<in>set q'. toordinal (matched_date m) \<le> toordinal (lot_date p)"
    using match_loop_oldest_first [of q r r' q' ms' cb'] by blast
next
  assume b: "(\<forall>b\<in>set buys. Units b \<noteq> 0)
        \<and> sells_loop sells (load_buys (by_trade_date buys), [], []) = Inr (book, rs, ws)
        \<and> book ticker = Some qt"
  then show "lots_positive qt" "by_date qt"
    using queues_stay_ordered [of buys sells book rs ws ticker qt] by blast+
next
  assume c: "oldest \<in> set buys \<and> Symbol oldest = Symbol s
        \<and> (\<forall>b\<in>set buys. Symbol b = Symbol s \<and> b \<noteq> oldest \<longrightarrow>
              toordinal (Trade_Date oldest) < toordinal (Trade_Date b))
        \<and> 0 < \<bar>Units s\<bar> \<and> \<bar>Units s\<bar> < \<bar>Units oldest\<bar>"
  then show "match_trades buys [s] =
      Inr ([sale_result s [taken_part (new_parcel oldest) \<bar>Units s\<bar>]], [])"
    using sale_from_oldest_lot [of oldest buys s] by blast
  show "cost_base (sale_result s [taken_part (new_parcel oldest) \<bar>Units s\<bar>])
          = total_cost (new_parcel oldest) * (\<bar>Units s\<bar> / \<bar>Units oldest\<bar>)"
    by (simp add: sale_result_fields taken_part_def new_parcel_def)
qed


text \<open>Three buys of 10 units dated 1 March, 1 May and 1 January 2022, given in that
  order, and a sell of 4 units; and 14 units taken from the three lots in date order.\<close>

theorem fifo_oldest_lot_first_witness:
  "map_sum id (\<lambda>(results, warnings). map cost_base results)
     (match_trades
        [\<lparr>Trade_Date = \<lparr>year = 2022, month = 3, day = 1\<rparr>,
          Symbol = ''X'', Side = ''Buy'',
          Units = 10, Value = 1100, Fees = 0, GST = 0, AUD_USD_rate = 1\<rparr>,
         \<lparr>Trade_Date = \<lparr>year = 2022, month = 5, day = 1\<rparr>,
          Symbol = ''X'', Side = ''Buy'',
          Units = 10, Value = 1200, Fees = 0, GST = 0, AUD_USD_rate = 1\<rparr>,
         \<lparr>Trade_Date = \<lparr>year = 2022, month = 1, day = 1\<rparr>,
          Symbol = ''X'', Side = ''Buy'',
          Units = 10, Value = 1000, Fees = 0, GST = 0, AUD_USD_rate = 1\<rparr>]
        [\<lparr>Trade_Date = \<lparr>year = 2023, month = 2, day = 1\<rparr>,
          Symbol = ''X'', Side = ''Sell'',
          Units = 4, Value = 600, Fees = 0, GST = 0, AUD_USD_rate = 1\<rparr>])
   = Inr [400]
   \<and> match_loop 14
        [new_parcel
           \<lparr>Trade_Date = \<lparr>year = 2022, month = 1, day = 1\<rparr>,
             Symbol = ''X'', Side = ''Buy'',
             Units = 10, Value = 1000, Fees = 0, GST = 0, AUD_USD_rate = 1\<rparr>,
         new_parcel
           \<lparr>Trade_Date = \<lparr>year = 2022, month = 3, day = 1\<rparr>,
             Symbol = ''X'', Side = ''Buy'',
             Units = 10, Value = 1100, Fees = 0, GST = 0, AUD_USD_rate = 1\<rparr>,
         new_parcel
           \<lparr>Trade_Date = \<lparr>year = 2022, month = 5, day = 1\<rparr>,
             Symbol = ''X'', Side = ''Buy'',
             Units = 10, Value = 1200, Fees = 0, GST = 0, AUD_USD_rate = 1\<rparr>] [] 0
     = Inr (0,
            [(new_parcel
               \<lparr>Trade_Date = \<lparr>year = 2022, month = 3, day = 1\<rparr>,
                 Symbol = ''X'', Side = ''Buy'',
                 Units = 10, Value = 1100, Fees = 0, GST = 0, AUD_USD_rate = 1\<rparr>)\<lparr>lot_units := 6\<rparr>,
             new_parcel
               \<lparr>Trade_Date = \<lparr>year = 2022, month = 5, day = 1\<rparr>,
                 Symbol = ''X'', Side = ''Buy'',
                 Units = 10, Value = 1200, Fees = 0, GST = 0, AUD_USD_rate = 1\<rparr>],
            [taken_whole (new_parcel
               \<lparr>Trade_Date = \<lparr>year = 2022, month = 1, day = 1\<rparr>,
                 Symbol = ''X'', Side = ''Buy'',
                 Units = 10, Value = 1000, Fees = 0, GST = 0, AUD_USD_rate = 1\<rparr>),
             taken_part (new_parcel
               \<lparr>Trade_Date = \<lparr>year = 2022, month = 3, day = 1\<rparr>,
                 Symbol = ''X'', Side = ''Buy'',
                 Units = 10, Value = 1100, Fees = 0, GST = 0, AUD_USD_rate = 1\<rparr>) 4],
            1440)
   \<and> toordinal (matched_date (taken_part (new_parcel
               \<lparr>Trade_Date = \<lparr>year = 2022, month = 3, day = 1\<rparr>,
                 Symbol = ''X'', Side = ''Buy'',
                 Units = 10, Value = 1100, Fees = 0, GST = 0, AUD_USD_rate = 1\<rparr>) 4))
       \<le> toordinal (lot_date (new_parcel
               \<lparr>Trade_Date = \<lparr>year = 2022, month = 5, day = 1\<rparr>,
                 Symbol = ''X'', Side = ''Buy'',
                 Units = 10, Value = 1200, Fees = 0, GST = 0, AUD_USD_rate = 1\<rparr>))
   \<and> by_date
        [(new_parcel
            \<lparr>Trade_Date = \<lparr>year = 2022, month = 1, day = 1\<rparr>,
              Symbol = ''X'', Side = ''Buy'',
              Units = 10, Value = 1000, Fees = 0, GST = 0, AUD_USD_rate = 1\<rparr>)\<lparr>lot_units := 6\<rparr>,
         new_parcel
            \<lparr>Trade_Date = \<lparr>year = 2022, month = 3, day = 1\<rparr>,
              Symbol = ''X'', Side = ''Buy'',
              Units = 10, Value = 1100, Fees = 0, GST = 0, AUD_USD_rate = 1\<rparr>,
         new_parcel
            \<lparr>Trade_Date = \<lparr>year = 2022, month = 5, day = 1\<rparr>,
              Symbol = ''X'', Side = ''Buy'',
              Units = 10, Value = 1200, Fees = 0, GST = 0, AUD_USD_rate = 1\<rparr>]"
proof -
  let ?b1 = "\<lparr>Trade_Date = \<lparr>year = 2022, month = 1, day = 1\<rparr>, Symbol = ''X'', Side = ''Buy'', Units = 10, Value = 1000, Fees = 0, GST = 0, AUD_USD_rate = 1\<rparr>"
  let ?b2 = "\<lparr>Trade_Date = \<lparr>year = 2022, month = 3, day = 1\<rparr>, Symbol = ''X'', Side = ''Buy'', Units = 10, Value = 1100, Fees = 0, GST = 0, AUD_USD_rate = 1\<rparr>"
  let ?b3 = "\<lparr>Trade_Date = \<lparr>year = 2022, month = 5, day = 1\<rparr>, Symbol = ''X'', Side = ''Buy'', Units = 10, Value = 1200, Fees = 0, GST = 0, AUD_USD_rate = 1\<rparr>"
  let ?s = "\<lparr>Trade_Date = \<lparr>year = 2023, month = 2, day = 1\<rparr>, Symbol = ''X'', Side = ''Sell'', Units = 4, Value = 600, Fees = 0, GST = 0, AUD_USD_rate = 1\<rparr>"
  let ?q = "[new_parcel ?b1, new_parcel ?b2, new_parcel ?b3]"
  let ?q' = "[(new_parcel ?b2)\<lparr>lot_units := 6\<rparr>, new_parcel ?b3]"
  let ?ms = "[taken_whole (new_parcel ?b1), taken_part (new_parcel ?b2) 4]"
  have run: "match_loop 14 ?q [] 0 = Inr (0, ?q', ?ms, 1440)"
    by (simp add: match_loop.simps new_parcel_def taken_whole_def taken_part_def Let_def)
  have pos: "lots_positive ?q" and srt: "by_date ?q"
    by (simp_all add: new_parcel_def by_date_def eval_dates)
  have dates: "b1' \<in> set [?b2, ?b3, ?b1] \<and> Symbol b1' = Symbol ?s
        \<and> (\<forall>b\<in>set [?b2, ?b3, ?b1]. Symbol b = Symbol ?s \<and> b \<noteq> b1' \<longrightarrow>
              toordinal (Trade_Date b1') < toordinal (Trade_Date b))
        \<and> 0 < \<bar>Units ?s\<bar> \<and> \<bar>Units ?s\<bar> < \<bar>Units b1'\<bar>" if "b1' = ?b1" for b1'
    using that by (simp add: eval_dates)
  let ?qt = "[(new_parcel ?b1)\<lparr>lot_units := 6\<rparr>, new_parcel ?b2, new_parcel ?b3]"
  have "\<exists>rs. sells_loop [?s] (load_buys (by_trade_date [?b2, ?b3, ?b1]), [], [])
      = Inr ([''X'' \<mapsto> ?qt], rs, [])"
    by (simp add: eval_match eval_dates)
  then obtain rs1 where after: "sells_loop [?s] (load_buys (by_trade_date [?b2, ?b3, ?b1]), [], [])
      = Inr ([''X'' \<mapsto> ?qt], rs1, [])"
    by blast
  have nonzero: "\<forall>b\<in>set [?b2, ?b3, ?b1]. Units b \<noteq> 0" by simp
  from fifo_oldest_lot_first [where q = ?q and r = 14 and r' = 0 and q' = ?q' and ms' = ?ms
      and cb' = 1440 and buys = "[?b2, ?b3, ?b1]" and oldest = ?b1 and s = ?s
      and sells = "[?s]" and book = "[''X'' \<mapsto> ?qt]"
      and rs = rs1 and ws = "[]" and ticker = "''X''"
      and qt = ?qt] run pos srt dates [OF refl] after nonzero
  have first: "match_trades [?b2, ?b3, ?b1] [?s] =
      Inr ([sale_result ?s [taken_part (new_parcel ?b1) \<bar>Units ?s\<bar>]], [])"
    and cost: "cost_base (sale_result ?s [taken_part (new_parcel ?b1) \<bar>Units ?s\<bar>])
          = total_cost (new_parcel ?b1) * (\<bar>Units ?s\<bar> / \<bar>Units ?b1\<bar>)"
    and older: "\<forall>m\<in>set ?ms. \<forall>p\<in>set ?q'. toordinal (matched_date m) \<le> toordinal (lot_date p)"
    and ordered: "by_date ?qt"
    by simp_all
  from older have "toordinal (matched_date (taken_part (new_parcel ?b2) 4))
       \<le> toordinal (lot_date (new_parcel ?b3))"
    by simp
  with first cost run ordered show ?thesis
    by (simp add: new_parcel_def)
qed

subsection \<open>Cost base, proceeds and gains\<close>


lemma parcel_totals_fold:
  "fold (parcel_step sell) ms (d, u, l) =
     (d + (\<Sum>m\<leftarrow>ms. if parcel_gain_loss sell m > 0 \<and> holding_period sell m \<ge> 365
                      then parcel_gain_loss sell m * (1 / 2) else 0),
      u + (\<Sum>m\<leftarrow>ms. if parcel_gain_loss sell m > 0 \<and> holding_period sell m < 365
                      then parcel_gain_loss sell m else 0),
      l + (\<Sum>m\<leftarrow>ms. if parcel_gain_loss sell m \<le> 0 then parcel_gain_loss sell m else 0))"
  by (induction ms arbitrary: d u l) (auto simp: parcel_step_def cgt_discount_days_def)




lemma apportioned_mono: "apportioned xs m \<Longrightarrow> set xs \<subseteq> set ys \<Longrightarrow> apportioned ys m"
  by (auto simp: apportioned_def list_ex_iff)



















subsection \<open>Classification of parcels\<close>

text \<open>
  Claim C3. Each matched parcel is classified by its own gain and holding period: a gain
  held 365 days or more adds half of itself to the discounted total, a gain held less adds
  itself to the undiscounted total, and a gain that is zero or negative adds itself to the
  loss total whatever the holding period; the three totals of a sale are the sums of these
  contributions over its parcels.
\<close>

theorem parcel_classification:
  "(parcel_gain_loss sell m > 0 \<and> holding_period sell m \<ge> 365 \<longrightarrow>
      parcel_step sell m (d, u, l) = (d + parcel_gain_loss sell m * (1 / 2), u, l))
   \<and> (parcel_gain_loss sell m > 0 \<and> holding_period sell m < 365 \<longrightarrow>
      parcel_step sell m (d, u, l) = (d, u + parcel_gain_loss sell m, l))
   \<and> (parcel_gain_loss sell m \<le> 0 \<longrightarrow>
      parcel_step sell m (d, u, l) = (d, u, l + parcel_gain_loss sell m))
   \<and> discounted_gain (sale_result sell ms) =
       (\<Sum>m\<leftarrow>ms. if parcel_gain_loss sell m > 0 \<and> holding_period sell m \<ge> 365
                 then parcel_gain_loss sell m * (1 / 2) else 0)
   \<and> undiscounted_gain (sale_result sell ms) =
       (\<Sum>m\<leftarrow>ms. if parcel_gain_loss sell m > 0 \<and> holding_period sell m < 365
                 then parcel_gain_loss sell m else 0)
   \<and> capital_loss (sale_result sell ms) =
       (\<Sum>m\<leftarrow>ms. if parcel_gain_loss sell m \<le> 0 then parcel_gain_loss sell m else 0)"
  by (simp add: parcel_step_def cgt_discount_days_def sale_result_def parcel_totals_def
        parcel_totals_fold)

text \<open>A sale of 30 units for 6000 on 1 January 2023 against three entries of 10 units: one
  bought 365 days before at cost 1000, one bought 364 days before at cost 1000, one bought
  365 days before at cost 3000.\<close>

theorem parcel_classification_witness:
  "holding_period
      \<lparr>Trade_Date = \<lparr>year = 2023, month = 1, day = 1\<rparr>, Symbol = ''X'', Side = ''Sell'',
       Units = 30, Value = 6000, Fees = 0, GST = 0, AUD_USD_rate = 1\<rparr>
      \<lparr>matched_date = \<lparr>year = 2022, month = 1, day = 1\<rparr>, matched_units = 10,
       matched_cost = 1000\<rparr> = 365
   \<and> parcel_step
      \<lparr>Trade_Date = \<lparr>year = 2023, month = 1, day = 1\<rparr>, Symbol = ''X'', Side = ''Sell'',
       Units = 30, Value = 6000, Fees = 0, GST = 0, AUD_USD_rate = 1\<rparr>
      \<lparr>matched_date = \<lparr>year = 2022, month = 1, day = 1\<rparr>, matched_units = 10,
       matched_cost = 1000\<rparr> (0, 0, 0) = (500, 0, 0)
   \<and> holding_period
      \<lparr>Trade_Date = \<lparr>year = 2023, month = 1, day = 1\<rparr>, Symbol = ''X'', Side = ''Sell'',
       Units = 30, Value = 6000, Fees = 0, GST = 0, AUD_USD_rate = 1\<rparr>
      \<lparr>matched_date = \<lparr>year = 2022, month = 1, day = 2\<rparr>, matched_units = 10,
       matched_cost = 1000\<rparr> = 364
   \<and> parcel_step
      \<lparr>Trade_Date = \<lparr>year = 2023, month = 1, day = 1\<rparr>, Symbol = ''X'', Side = ''Sell'',
       Units = 30, Value = 6000, Fees = 0, GST = 0, AUD_USD_rate = 1\<rparr>
      \<lparr>matched_date = \<lparr>year = 2022, month = 1, day = 2\<rparr>, matched_units = 10,
       matched_cost = 1000\<rparr> (0, 0, 0) = (0, 1000, 0)
   \<and> parcel_step
      \<lparr>Trade_Date = \<lparr>year = 2023, month = 1, day = 1\<rparr>, Symbol = ''X'', Side = ''Sell'',
       Units = 30, Value = 6000, Fees = 0, GST = 0, AUD_USD_rate = 1\<rparr>
      \<lparr>matched_date = \<lparr>year = 2022, month = 1, day = 1\<rparr>, matched_units = 10,
       matched_cost = 3000\<rparr> (0, 0, 0) = (0, 0, - 1000)"
proof -
  let ?s = "\<lparr>Trade_Date = \<lparr>year = 2023, month = 1, day = 1\<rparr>, Symbol = ''X'', Side = ''Sell'',
       Units = 30, Value = 6000, Fees = 0, GST = 0, AUD_USD_rate = 1\<rparr>"
  let ?a = "\<lparr>matched_date = \<lparr>year = 2022, month = 1, day = 1\<rparr>, matched_units = 10,
       matched_cost = 1000\<rparr>"
  let ?b = "\<lparr>matched_date = \<lparr>year = 2022, month = 1, day = 2\<rparr>, matched_units = 10,
       matched_cost = 1000\<rparr>"
  let ?c = "\<lparr>matched_date = \<lparr>year = 2022, month = 1, day = 1\<rparr>, matched_units = 10,
       matched_cost = 3000\<rparr>"
  have ha: "holding_period ?s ?a = 365" and hb: "holding_period ?s ?b = 364"
    and hc: "holding_period ?s ?c = 365"
    by (simp_all add: holding_period_def eval_dates)
  have ga: "parcel_gain_loss ?s ?a = 1000" and gb: "parcel_gain_loss ?s ?b = 1000"
    and gc: "parcel_gain_loss ?s ?c = - 1000"
    by (simp_all add: parcel_gain_loss_def portion_proceeds_def sale_proceeds_def)
  show ?thesis
    using parcel_classification [of ?s ?a 0 0 0 "[]"]
      parcel_classification [of ?s ?b 0 0 0 "[]"]
      parcel_classification [of ?s ?c 0 0 0 "[]"]
    by (simp add: ha hb hc ga gb gc)
qed

subsection \<open>Lots acquired after the sale\<close>

lemma future_lot_step:
  assumes "toordinal (Trade_Date s) < toordinal (matched_date m)"
  shows "holding_period s m < 0"
    and "parcel_step s m (d, u, l) =
           (if parcel_gain_loss s m > 0 then (d, u + parcel_gain_loss s m, l)
            else (d, u, l + parcel_gain_loss s m))"
  using assms
  by (simp_all add: holding_period_def days_between_def parcel_step_def cgt_discount_days_def)

lemma future_lots_sale:
  assumes "\<forall>m\<in>set ms. toordinal (Trade_Date s) < toordinal (matched_date m)"
  shows "discounted_gain (sale_result s ms) = 0"
    and "undiscounted_gain (sale_result s ms) =
           (\<Sum>m\<leftarrow>ms. if parcel_gain_loss s m > 0 then parcel_gain_loss s m else 0)"
proof -
  have neg: "holding_period s m < 365" if "m \<in> set ms" for m
    using assms that by (force simp: holding_period_def days_between_def)
  have "(\<Sum>m\<leftarrow>ms. if parcel_gain_loss s m > 0 \<and> holding_period s m \<ge> 365
                 then parcel_gain_loss s m * (1 / 2) else 0) = (\<Sum>m\<leftarrow>ms. 0)"
    by (rule arg_cong [where f = sum_list], rule map_cong) (auto dest!: neg)
  then show "discounted_gain (sale_result s ms) = 0"
    by (simp add: sale_result_def parcel_totals_def parcel_totals_fold)
  have "(\<Sum>m\<leftarrow>ms. if parcel_gain_loss s m > 0 \<and> holding_period s m < 365
                 then parcel_gain_loss s m else 0)
        = (\<Sum>m\<leftarrow>ms. if parcel_gain_loss s m > 0 then parcel_gain_loss s m else 0)"
    by (rule arg_cong [where f = sum_list], rule map_cong) (auto dest!: neg)
  then show "undiscounted_gain (sale_result s ms) =
           (\<Sum>m\<leftarrow>ms. if parcel_gain_loss s m > 0 then parcel_gain_loss s m else 0)"
    by (simp add: sale_result_def parcel_totals_def parcel_totals_fold)
qed

text \<open>
  Claim C10. Every buy of the batch is in the lot book before the first sell is matched,
  and nothing compares the sell's date with a lot's. A parcel whose lot was acquired after
  the sell date has a negative holding period, so a gain on it goes whole to the
  undiscounted total and never to the discounted one. A sell dated before the oldest lot of
  its symbol is matched against that lot and gives a sale result all the same.
\<close>

theorem future_dated_lot_is_matched:
  "(toordinal (Trade_Date s) < toordinal (matched_date m) \<longrightarrow>
      holding_period s m < 0
      \<and> parcel_step s m (d, u, l) =
          (if parcel_gain_loss s m > 0 then (d, u + parcel_gain_loss s m, l)
           else (d, u, l + parcel_gain_loss s m)))
   \<and> ((\<forall>m\<in>set ms. toordinal (Trade_Date s) < toordinal (matched_date m)) \<longrightarrow>
      discounted_gain (sale_result s ms) = 0
      \<and> undiscounted_gain (sale_result s ms) =
          (\<Sum>m\<leftarrow>ms. if parcel_gain_loss s m > 0 then parcel_gain_loss s m else 0))
   \<and> (oldest \<in> set buys \<and> Symbol oldest = Symbol s
        \<and> (\<forall>b\<in>set buys. Symbol b = Symbol s \<and> b \<noteq> oldest \<longrightarrow>
              toordinal (Trade_Date oldest) < toordinal (Trade_Date b))
        \<and> 0 < \<bar>Units s\<bar> \<and> \<bar>Units s\<bar> < \<bar>Units oldest\<bar>
        \<and> toordinal (Trade_Date s) < toordinal (Trade_Date oldest) \<longrightarrow>
      match_trades buys [s] =
        Inr ([sale_result s [taken_part (new_parcel oldest) \<bar>Units s\<bar>]], [])
      \<and> holding_period s (taken_part (new_parcel oldest) \<bar>Units s\<bar>) < 0
      \<and> discounted_gain (sale_result s [taken_part (new_parcel oldest) \<bar>Units s\<bar>]) = 0)"
proof (intro conjI impI)
  assume "toordinal (Trade_Date s) < toordinal (matched_date m)"
  then show "holding_period s m < 0"
    and "parcel_step s m (d, u, l) =
          (if parcel_gain_loss s m > 0 then (d, u + parcel_gain_loss s m, l)
           else (d, u, l + parcel_gain_loss s m))"
    by (rule future_lot_step)+
next
  assume "\<forall>m\<in>set ms. toordinal (Trade_Date s) < toordinal (matched_date m)"
  then show "discounted_gain (sale_result s ms) = 0"
    and "undiscounted_gain (sale_result s ms) =
          (\<Sum>m\<leftarrow>ms. if parcel_gain_loss s m > 0 then parcel_gain_loss s m else 0)"
    by (rule future_lots_sale)+
next
  assume a: "oldest \<in> set buys \<and> Symbol oldest = Symbol s
        \<and> (\<forall>b\<in>set buys. Symbol b = Symbol s \<and> b \<noteq> oldest \<longrightarrow>
              toordinal (Trade_Date oldest) < toordinal (Trade_Date b))
        \<and> 0 < \<bar>Units s\<bar> \<and> \<bar>Units s\<bar> < \<bar>Units oldest\<bar>
        \<and> toordinal (Trade_Date s) < toordinal (Trade_Date oldest)"
  then show "match_trades buys [s] =
        Inr ([sale_result s [taken_part (new_parcel oldest) \<bar>Units s\<bar>]], [])"
    using sale_from_oldest_lot [of oldest buys s] by blast
  from a have later: "toordinal (Trade_Date s)
      < toordinal (matched_date (taken_part (new_parcel oldest) \<bar>Units s\<bar>))"
    by simp
  then show "holding_period s (taken_part (new_parcel oldest) \<bar>Units s\<bar>) < 0"
    by (rule future_lot_step)
  from later show "discounted_gain (sale_result s [taken_part (new_parcel oldest) \<bar>Units s\<bar>]) = 0"
    using future_lots_sale(1) [of "[taken_part (new_parcel oldest) \<bar>Units s\<bar>]" s] by simp
qed

text \<open>A sell of 4 units on 1 January 2023 for 600 against a lot of 10 units bought for
  1000 on 1 June 2023, 151 days later.\<close>

theorem future_dated_lot_is_matched_witness:
  "map_sum id (\<lambda>(results, warnings).
       map (\<lambda>x. (cost_base x, proceeds x, discounted_gain x, undiscounted_gain x)) results)
     (match_trades
        [\<lparr>Trade_Date = \<lparr>year = 2023, month = 6, day = 1\<rparr>,
          Symbol = ''X'', Side = ''Buy'',
          Units = 10, Value = 1000, Fees = 0, GST = 0, AUD_USD_rate = 1\<rparr>]
        [\<lparr>Trade_Date = \<lparr>year = 2023, month = 1, day = 1\<rparr>,
          Symbol = ''X'', Side = ''Sell'',
          Units = 4, Value = 600, Fees = 0, GST = 0, AUD_USD_rate = 1\<rparr>])
   = Inr [(400, 600, 0, 200)]
   \<and> holding_period
        \<lparr>Trade_Date = \<lparr>year = 2023, month = 1, day = 1\<rparr>,
         Symbol = ''X'', Side = ''Sell'',
         Units = 4, Value = 600, Fees = 0, GST = 0, AUD_USD_rate = 1\<rparr>
        (taken_part (new_parcel
        \<lparr>Trade_Date = \<lparr>year = 2023, month = 6, day = 1\<rparr>,
         Symbol = ''X'', Side = ''Buy'',
         Units = 10, Value = 1000, Fees = 0, GST = 0, AUD_USD_rate = 1\<rparr>) 4) = - 151"
proof -
  let ?b = "\<lparr>Trade_Date = \<lparr>year = 2023, month = 6, day = 1\<rparr>, Symbol = ''X'', Side = ''Buy'', Units = 10, Value = 1000, Fees = 0, GST = 0, AUD_USD_rate = 1\<rparr>"
  let ?s = "\<lparr>Trade_Date = \<lparr>year = 2023, month = 1, day = 1\<rparr>, Symbol = ''X'', Side = ''Sell'', Units = 4, Value = 600, Fees = 0, GST = 0, AUD_USD_rate = 1\<rparr>"
  let ?m = "taken_part (new_parcel ?b) 4"
  have later: "toordinal (Trade_Date ?s) < toordinal (matched_date ?m)"
    by (simp add: eval_dates)
  have hyp: "oldest \<in> set [?b] \<and> Symbol oldest = Symbol ?s
        \<and> (\<forall>b\<in>set [?b]. Symbol b = Symbol ?s \<and> b \<noteq> oldest \<longrightarrow>
              toordinal (Trade_Date oldest) < toordinal (Trade_Date b))
        \<and> 0 < \<bar>Units ?s\<bar> \<and> \<bar>Units ?s\<bar> < \<bar>Units oldest\<bar>
        \<and> toordinal (Trade_Date ?s) < toordinal (Trade_Date oldest)" if "oldest = ?b" for oldest
    using that by (simp add: eval_dates)
  have gain: "parcel_gain_loss ?s ?m = 200"
    by (simp add: parcel_gain_loss_def portion_proceeds_def sale_proceeds_def taken_part_def
        new_parcel_def)
  have days: "holding_period ?s ?m = - 151"
    by (simp add: holding_period_def eval_dates)
  from future_dated_lot_is_matched [where s = ?s and m = ?m and ms = "[?m]" and oldest = ?b
      and buys = "[?b]" and d = 0 and u = 0 and l = 0] later hyp [OF refl]
  have run: "match_trades [?b] [?s] = Inr ([sale_result ?s [?m]], [])"
    and disc: "discounted_gain (sale_result ?s [?m]) = 0"
    and undisc: "undiscounted_gain (sale_result ?s [?m]) =
          (\<Sum>m\<leftarrow>[?m]. if parcel_gain_loss ?s m > 0 then parcel_gain_loss ?s m else 0)"
    by simp_all
  from run disc undisc gain days show ?thesis
    by (simp add: sale_result_fields sale_proceeds_def taken_part_def new_parcel_def)
qed

subsection \<open>Rows that break the input invariants\<close>

lemma insort_key_map:
  assumes "\<And>y. k (g y) = k y"
  shows "insort_key k (g x) (map g xs) = map g (insort_key k x xs)"
  by (induction xs) (simp_all add: assms)

lemma sort_key_map:
  assumes "\<And>y. k (g y) = k y"
  shows "sort_key k (map g xs) = map g (sort_key k xs)"
  by (induction xs) (simp_all add: insort_key_map [of k g, OF assms])

lemma match_trades_same_parcels:
  assumes "\<And>b. Trade_Date (g b) = Trade_Date b" "\<And>b. Symbol (g b) = Symbol b"
    "\<And>b. new_parcel (g b) = new_parcel b"
  shows "match_trades (map g buys) sells = match_trades buys sells"
proof -
  have "by_trade_date (map g buys) = map g (by_trade_date buys)"
    unfolding by_trade_date_def by (rule sort_key_map) (simp add: assms(1))
  moreover have "add_buy (g b) = add_buy b" for b
    by (rule ext) (simp add: add_buy_def assms)
  then have "fold add_buy (map g bs) = fold add_buy bs" for bs
    by (simp add: fold_map comp_def)
  ultimately show ?thesis
    by (simp add: match_trades_def load_buys_def)
qed

lemma process_data_abs_units:
  "process_data (map abs_units df) = process_data df"
proof -
  have buys: "filter (\<lambda>t. Side t = ''Buy'') (map abs_units df)
      = map abs_units (filter (\<lambda>t. Side t = ''Buy'') df)"
    by (induction df) (simp_all add: abs_units_def)
  have sells: "filter (\<lambda>t. Side t = ''Sell'') (map abs_units df)
      = filter (\<lambda>t. Side t = ''Sell'') df"
    by (induction df) (simp_all add: abs_units_def)
  have "match_trades (map abs_units bs) ss = match_trades bs ss" for bs ss
    by (rule match_trades_same_parcels) (simp_all add: abs_units_def new_parcel_def)
  then show ?thesis
    by (simp add: process_data_def buys sells)
qed

text \<open>
  Claim C7, as the code has it. The engine validates nothing. A row whose side is neither
  \<open>Buy\<close> nor \<open>Sell\<close> passes neither filter of \<^verbatim>\<open>process_data\<close>: the batch is
  processed as if the row were absent, and nothing is logged for it. The units of a buy are
  taken by magnitude: a batch gives the same summary, details and log when every buy row
  is replaced by the same row with \<open>|Units|\<close>, and the lot of a buy holds \<open>|Units|\<close>
  units.
\<close>

theorem unvalidated_trades:
  "(Side t \<noteq> ''Buy'' \<and> Side t \<noteq> ''Sell'' \<longrightarrow>
      process_data (xs @ t # ys) = process_data (xs @ ys))
   \<and> process_data (map abs_units df) = process_data df
   \<and> (Side t = ''Buy'' \<longrightarrow> new_parcel t = new_parcel (t\<lparr>Units := \<bar>Units t\<bar>\<rparr>)
        \<and> lot_units (new_parcel t) = \<bar>Units t\<bar>)"
  by (simp add: process_data_abs_units) (simp add: process_data_def new_parcel_def)

text \<open>A buy of \<open>- 10\<close> units, a row with the side \<open>Hold\<close> and a sell of 4 units.\<close>

theorem unvalidated_trades_witness:
  "process_data
     [\<lparr>Trade_Date = \<lparr>year = 2022, month = 1, day = 1\<rparr>,
       Symbol = ''X'', Side = ''Buy'',
       Units = - 10, Value = 1000, Fees = 0, GST = 0, AUD_USD_rate = 1\<rparr>,
      \<lparr>Trade_Date = \<lparr>year = 2022, month = 3, day = 1\<rparr>,
       Symbol = ''X'', Side = ''Hold'',
       Units = 5, Value = 500, Fees = 0, GST = 0, AUD_USD_rate = 1\<rparr>,
      \<lparr>Trade_Date = \<lparr>year = 2022, month = 6, day = 1\<rparr>,
       Symbol = ''X'', Side = ''Sell'',
       Units = 4, Value = 500, Fees = 0, GST = 0, AUD_USD_rate = 1\<rparr>]
   = process_data
     [\<lparr>Trade_Date = \<lparr>year = 2022, month = 1, day = 1\<rparr>,
       Symbol = ''X'', Side = ''Buy'',
       Units = - 10, Value = 1000, Fees = 0, GST = 0, AUD_USD_rate = 1\<rparr>,
      \<lparr>Trade_Date = \<lparr>year = 2022, month = 6, day = 1\<rparr>,
       Symbol = ''X'', Side = ''Sell'',
       Units = 4, Value = 500, Fees = 0, GST = 0, AUD_USD_rate = 1\<rparr>]
   \<and> process_data
     [\<lparr>Trade_Date = \<lparr>year = 2022, month = 1, day = 1\<rparr>,
       Symbol = ''X'', Side = ''Buy'',
       Units = 10, Value = 1000, Fees = 0, GST = 0, AUD_USD_rate = 1\<rparr>,
      \<lparr>Trade_Date = \<lparr>year = 2022, month = 6, day = 1\<rparr>,
       Symbol = ''X'', Side = ''Sell'',
       Units = 4, Value = 500, Fees = 0, GST = 0, AUD_USD_rate = 1\<rparr>]
   = process_data
     [\<lparr>Trade_Date = \<lparr>year = 2022, month = 1, day = 1\<rparr>,
       Symbol = ''X'', Side = ''Buy'',
       Units = - 10, Value = 1000, Fees = 0, GST = 0, AUD_USD_rate = 1\<rparr>,
      \<lparr>Trade_Date = \<lparr>year = 2022, month = 6, day = 1\<rparr>,
       Symbol = ''X'', Side = ''Sell'',
       Units = 4, Value = 500, Fees = 0, GST = 0, AUD_USD_rate = 1\<rparr>]
   \<and> lot_units (new_parcel
      \<lparr>Trade_Date = \<lparr>year = 2022, month = 1, day = 1\<rparr>,
       Symbol = ''X'', Side = ''Buy'',
       Units = - 10, Value = 1000, Fees = 0, GST = 0, AUD_USD_rate = 1\<rparr>) = 10"
proof -
  let ?b = "\<lparr>Trade_Date = \<lparr>year = 2022, month = 1, day = 1\<rparr>, Symbol = ''X'', Side = ''Buy'', Units = - 10, Value = 1000, Fees = 0, GST = 0, AUD_USD_rate = 1\<rparr>"
  let ?p = "\<lparr>Trade_Date = \<lparr>year = 2022, month = 1, day = 1\<rparr>, Symbol = ''X'', Side = ''Buy'', Units = 10, Value = 1000, Fees = 0, GST = 0, AUD_USD_rate = 1\<rparr>"
  let ?t = "\<lparr>Trade_Date = \<lparr>year = 2022, month = 3, day = 1\<rparr>, Symbol = ''X'', Side = ''Hold'', Units = 5, Value = 500, Fees = 0, GST = 0, AUD_USD_rate = 1\<rparr>"
  let ?s = "\<lparr>Trade_Date = \<lparr>year = 2022, month = 6, day = 1\<rparr>, Symbol = ''X'', Side = ''Sell'', Units = 4, Value = 500, Fees = 0, GST = 0, AUD_USD_rate = 1\<rparr>"
  from unvalidated_trades [where t = ?t and xs = "[?b]" and ys = "[?s]" and df = "[?b, ?s]"]
  have dropped: "process_data [?b, ?t, ?s] = process_data [?b, ?s]"
    and magnitude: "process_data (map abs_units [?b, ?s]) = process_data [?b, ?s]"
    by simp_all
  from unvalidated_trades [where t = ?b and xs = "[]" and ys = "[]" and df = "[]"]
  have "Side ?b = ''Buy'' \<longrightarrow> lot_units (new_parcel ?b) = \<bar>Units ?b\<bar>"
    by blast
  then have lot: "lot_units (new_parcel ?b) = 10"
    by simp
  have "map abs_units [?b, ?s] = [?p, ?s]"
    by (simp add: abs_units_def)
  with dropped magnitude lot show ?thesis
    by simp
qed

text \<open>
  Claim C7 as stated fails: a buy of \<open>- 10\<close> units is not rejected. It makes a lot of 10
  units, the sell of 4 units that follows is matched against it (cost base 400) and nothing
  is logged, while without the buy the sell has no lot to match. A row with the side
  \<open>Hold\<close> between them changes nothing and is not reported either.
\<close>

theorem negative_units_buy_makes_a_lot:
  "Units
     \<lparr>Trade_Date = \<lparr>year = 2022, month = 1, day = 1\<rparr>,
      Symbol = ''X'', Side = ''Buy'',
      Units = - 10, Value = 1000, Fees = 0, GST = 0, AUD_USD_rate = 1\<rparr> \<le> 0
   \<and> load_buys
        [\<lparr>Trade_Date = \<lparr>year = 2022, month = 1, day = 1\<rparr>,
          Symbol = ''X'', Side = ''Buy'',
          Units = - 10, Value = 1000, Fees = 0, GST = 0, AUD_USD_rate = 1\<rparr>] ''X''
      = Some [\<lparr>lot_date = \<lparr>year = 2022, month = 1, day = 1\<rparr>, lot_units = 10,
               lot_value = 1000, lot_fees = 0, lot_gst = 0, lot_rate = 1, total_cost = 1000\<rparr>]
   \<and> map_sum id (\<lambda>p. (map cost_base (details p), logged p))
        (process_data
          [\<lparr>Trade_Date = \<lparr>year = 2022, month = 1, day = 1\<rparr>,
            Symbol = ''X'', Side = ''Buy'',
            Units = - 10, Value = 1000, Fees = 0, GST = 0, AUD_USD_rate = 1\<rparr>,
           \<lparr>Trade_Date = \<lparr>year = 2022, month = 6, day = 1\<rparr>,
            Symbol = ''X'', Side = ''Sell'',
            Units = 4, Value = 500, Fees = 0, GST = 0, AUD_USD_rate = 1\<rparr>])
      = Inr ([400], [])
   \<and> match_trades []
        [\<lparr>Trade_Date = \<lparr>year = 2022, month = 6, day = 1\<rparr>,
          Symbol = ''X'', Side = ''Sell'',
          Units = 4, Value = 500, Fees = 0, GST = 0, AUD_USD_rate = 1\<rparr>]
      = Inr ([], [No_available_shares ''X'' \<lparr>year = 2022, month = 6, day = 1\<rparr>])
   \<and> map_sum id (\<lambda>p. (map cost_base (details p), logged p))
        (process_data
          [\<lparr>Trade_Date = \<lparr>year = 2022, month = 1, day = 1\<rparr>,
            Symbol = ''X'', Side = ''Buy'',
            Units = - 10, Value = 1000, Fees = 0, GST = 0, AUD_USD_rate = 1\<rparr>,
           \<lparr>Trade_Date = \<lparr>year = 2022, month = 3, day = 1\<rparr>,
            Symbol = ''X'', Side = ''Hold'',
            Units = 5, Value = 500, Fees = 0, GST = 0, AUD_USD_rate = 1\<rparr>,
           \<lparr>Trade_Date = \<lparr>year = 2022, month = 6, day = 1\<rparr>,
            Symbol = ''X'', Side = ''Sell'',
            Units = 4, Value = 500, Fees = 0, GST = 0, AUD_USD_rate = 1\<rparr>])
      = Inr ([400], [])"
  by (simp add: process_data_def eval_match eval_dates sale_result_fields prepare_summary_def)

subsection \<open>The summary\<close>

text \<open>A batch that yields no sale result ends in the exception of the summary.\<close>

lemma empty_batch_raises: "process_data [] = Inl KeyError"
  by (simp add: process_data_def match_trades_def by_trade_date_def load_buys_def
      prepare_summary_def)

text \<open>Evaluation of the floating-point operations on numerals.\<close>

lemma floor_numeral_quotient:
  "\<lfloor>numeral a / numeral b :: rat\<rfloor> = numeral a div numeral b"
  by (metis floor_divide_of_int_eq of_int_numeral)

lemma binary_exponent_up: "2 \<le> x \<Longrightarrow> binary_exponent x = binary_exponent (x / 2) + 1"
  by (subst binary_exponent.simps) simp

lemma binary_exponent_down:
  "0 < x \<Longrightarrow> x < 1 \<Longrightarrow> binary_exponent x = binary_exponent (x * 2) - 1"
  by (subst binary_exponent.simps) simp

lemma binary_exponent_unit: "1 \<le> x \<Longrightarrow> x < 2 \<Longrightarrow> binary_exponent x = 0"
  by (subst binary_exponent.simps) simp

lemmas eval_float = floor_numeral_quotient float_of_def float_add_def float_sub_def
  double_round_def pow2_def round_half_even_def binary_exponent_up binary_exponent_down
  binary_exponent_unit Let_def

text \<open>The exponent is the one of the binade of the number, and rounding is to a nearest
  integer multiple of the spacing.\<close>

lemma pow2_pos: "0 < pow2 e"
  by (simp add: pow2_def)

lemma pow2_Suc: "pow2 (e + 1) = 2 * pow2 e"
proof (cases "0 \<le> e")
  case True
  then show ?thesis by (simp add: pow2_def nat_add_distrib)
next
  case False
  then have "nat (- e) = Suc (nat (- (e + 1)))" by simp
  with False show ?thesis
    by (cases "e = - 1") (simp_all add: pow2_def)
qed

lemma pow2_add2: "pow2 (2 + e) = 4 * pow2 e"
  using pow2_Suc [of "e + 1"] pow2_Suc [of e] by (simp add: add.commute)

lemma pow2_pred: "pow2 (e - 1) = pow2 e / 2"
  using pow2_Suc [of "e - 1"] by simp

lemma binary_exponent_bounds:
  "0 < x \<Longrightarrow> pow2 (binary_exponent x) \<le> x \<and> x < pow2 (binary_exponent x + 1)"
proof (induction x rule: binary_exponent.induct)
  case (1 x)
  show ?case
  proof (cases "2 \<le> x")
    case True
    with 1 have "pow2 (binary_exponent (x / 2)) \<le> x / 2
        \<and> x / 2 < pow2 (binary_exponent (x / 2) + 1)"
      by simp
    moreover from True have "binary_exponent x = binary_exponent (x / 2) + 1"
      by (rule binary_exponent_up)
    ultimately show ?thesis
      by (simp add: pow2_Suc pow2_add2)
  next
    case False
    show ?thesis
    proof (cases "x < 1")
      case True
      with 1 False have "pow2 (binary_exponent (x * 2)) \<le> x * 2
          \<and> x * 2 < pow2 (binary_exponent (x * 2) + 1)"
        by simp
      moreover from 1 True have "binary_exponent x = binary_exponent (x * 2) - 1"
        by (simp add: binary_exponent_down)
      ultimately show ?thesis
        by (simp add: pow2_pred pow2_Suc)
    next
      case ge: False
      with False have "binary_exponent x = 0"
        by (simp add: binary_exponent_unit)
      with False ge show ?thesis
        by (simp add: pow2_def)
    qed
  qed
qed

lemma round_half_even_near: "\<bar>of_int (round_half_even y) - y\<bar> \<le> 1 / 2"
proof -
  have "of_int \<lfloor>y\<rfloor> \<le> y" "y < of_int \<lfloor>y\<rfloor> + 1"
    by linarith+
  then show ?thesis
    by (auto simp: round_half_even_def Let_def)
qed

text \<open>Rounding moves a number by at most half the spacing of the floats around it.\<close>

lemma double_round_near:
  assumes "x \<noteq> 0"
  shows "\<bar>double_round x - x\<bar> \<le> pow2 (max (binary_exponent \<bar>x\<bar>) (- 1022) - 52) / 2"
proof -
  define ulp where "ulp = pow2 (max (binary_exponent \<bar>x\<bar>) (- 1022) - 52)"
  have ulp: "0 < ulp" by (simp add: ulp_def pow2_pos)
  define n where "n = round_half_even (\<bar>x\<bar> / ulp)"
  have "\<bar>of_int n - \<bar>x\<bar> / ulp\<bar> \<le> 1 / 2"
    unfolding n_def by (rule round_half_even_near)
  then have "\<bar>of_int n - \<bar>x\<bar> / ulp\<bar> * ulp \<le> 1 / 2 * ulp"
    using ulp by (simp only: mult_le_cancel_right_pos)
  moreover have "(of_int n - \<bar>x\<bar> / ulp) * ulp = of_int n * ulp - \<bar>x\<bar>"
    using ulp by (simp add: field_simps)
  then have "\<bar>of_int n - \<bar>x\<bar> / ulp\<bar> * ulp = \<bar>of_int n * ulp - \<bar>x\<bar>\<bar>"
    using ulp by (metis abs_mult abs_of_pos)
  ultimately have near: "\<bar>of_int n * ulp - \<bar>x\<bar>\<bar> \<le> ulp / 2"
    by simp
  have "double_round x = sgn x * of_int n * ulp"
    using assms by (simp add: double_round_def Let_def ulp_def n_def)
  then have "\<bar>double_round x - x\<bar> = \<bar>sgn x * (of_int n * ulp - \<bar>x\<bar>)\<bar>"
    by (simp add: right_diff_distrib mult.assoc sgn_mult_abs del: mult_sgn_abs)
  also have "\<dots> = \<bar>of_int n * ulp - \<bar>x\<bar>\<bar>"
    using assms by (simp add: abs_mult abs_sgn_eq)
  finally show ?thesis
    using near by (simp add: ulp_def)
qed


lemma pow2_diff_nat: "pow2 (e - int n) = pow2 e / 2 ^ n"
proof (induction n)
  case 0
  then show ?case by simp
next
  case (Suc n)
  have "pow2 (e - int (Suc n)) = pow2 (e - int n - 1)"
    by (simp add: algebra_simps)
  with Suc show ?case
    by (simp add: pow2_pred)
qed

lemma pow2_mono: "e \<le> e' \<Longrightarrow> pow2 e \<le> pow2 e'"
proof -
  assume "e \<le> e'"
  then have "e = e' - int (nat (e' - e))" by simp
  then have "pow2 e = pow2 e' / 2 ^ nat (e' - e)"
    by (metis pow2_diff_nat)
  also have "\<dots> \<le> pow2 e'"
    using pow2_pos [of e'] by (simp add: field_simps mult_le_cancel_left1 less_imp_le)
  finally show ?thesis .
qed

text \<open>In the range of the normal numbers the relative error of rounding is at most
  \<open>2 ^ (- 53)\<close>.\<close>

lemma double_round_relative:
  assumes "pow2 (- 1022) \<le> \<bar>x\<bar>"
  shows "\<bar>double_round x - x\<bar> \<le> \<bar>x\<bar> / 2 ^ 53"
proof -
  from assms pow2_pos [of "- 1022"] have pos: "0 < \<bar>x\<bar>" and x: "x \<noteq> 0"
    by auto
  note b = binary_exponent_bounds [OF pos]
  have "- 1022 \<le> binary_exponent \<bar>x\<bar>"
  proof (rule ccontr)
    assume "\<not> - 1022 \<le> binary_exponent \<bar>x\<bar>"
    then have "binary_exponent \<bar>x\<bar> + 1 \<le> - 1022" by simp
    then have "pow2 (binary_exponent \<bar>x\<bar> + 1) \<le> pow2 (- 1022)"
      by (rule pow2_mono)
    with b assms show False by linarith
  qed
  then have "max (binary_exponent \<bar>x\<bar>) (- 1022) = binary_exponent \<bar>x\<bar>"
    by simp
  with double_round_near [OF x]
  have "\<bar>double_round x - x\<bar> \<le> pow2 (binary_exponent \<bar>x\<bar> - int 52) / 2"
    by simp
  also have "\<dots> = pow2 (binary_exponent \<bar>x\<bar>) / 2 ^ 53"
    by (simp only: pow2_diff_nat) simp
  also have "\<dots> \<le> \<bar>x\<bar> / 2 ^ 53"
    using b by (simp add: divide_right_mono)
  finally show ?thesis .
qed

lemma float_add_relative:
  "pow2 (- 1022) \<le> \<bar>a + b\<bar> \<Longrightarrow> \<bar>float_add a b - (a + b)\<bar> \<le> \<bar>a + b\<bar> / 2 ^ 53"
  unfolding float_add_def by (rule double_round_relative)

text \<open>The fold of a list of sale results, period by period.\<close>

lemma float_add_commute: "float_add a b = float_add b a"
  by (simp add: float_add_def add.commute)

lemma summary_loop_snoc: "summary_loop (rs @ [t]) = summary_step t (summary_loop rs)"
  by (simp add: summary_loop_def)

lemma summary_step_at:
  "summary_step t sm (financial_year t) =
     Some (add_sale (case sm (financial_year t) of None \<Rightarrow> no_sales | Some e \<Rightarrow> e) t)"
  by (simp add: summary_step_def add_sale_def no_sales_def Let_def split: option.splits)

lemma summary_step_other: "fy \<noteq> financial_year t \<Longrightarrow> summary_step t sm fy = sm fy"
  by (simp add: summary_step_def Let_def)

lemma period_totals_snoc: "period_totals (rs @ [t]) = add_sale (period_totals rs) t"
  by (simp add: period_totals_def)

lemma summary_loop_period:
  "summary_loop rs fy =
     (if of_period fy rs = [] then None else Some (period_totals (of_period fy rs)))"
proof (induction rs rule: rev_induct)
  case Nil
  then show ?case by (simp add: summary_loop_def of_period_def)
next
  case (snoc t rs)
  show ?case
  proof (cases "fy = financial_year t")
    case True
    have "of_period fy (rs @ [t]) = of_period fy rs @ [t]"
      using True by (simp add: of_period_def)
    with snoc True show ?thesis
      by (simp add: summary_loop_snoc summary_step_at period_totals_snoc)
        (simp add: period_totals_def)
  next
    case False
    then have "of_period fy (rs @ [t]) = of_period fy rs"
      by (auto simp: of_period_def)
    with snoc False show ?thesis
      by (simp add: summary_loop_snoc summary_step_other)
  qed
qed

lemma prepare_summary_order:
  assumes "\<forall>fy. of_period fy rs = of_period fy rs'"
  shows "prepare_summary rs = prepare_summary rs'"
proof -
  have nonempty: "xs \<noteq> [] \<longleftrightarrow> (\<exists>fy. of_period fy xs \<noteq> [])" for xs
    by (cases xs) (auto simp: of_period_def)
  from assms have "rs = [] \<longleftrightarrow> rs' = []"
    using nonempty [of rs] nonempty [of rs'] by metis
  moreover from assms have "summary_loop rs = summary_loop rs'"
    by (intro ext) (simp add: summary_loop_period)
  ultimately show ?thesis
    by (simp add: prepare_summary_def)
qed

text \<open>
  Claim C8. Folding a sale result into the summary adds, in binary floating point, its
  discounted and undiscounted gains to \<^verbatim>\<open>total_gains\<close> of its financial year (from
  zero when the year is new) and the absolute value of its capital loss to
  \<^verbatim>\<open>total_losses\<close>, sets \<^verbatim>\<open>net_position\<close> to the floating-point difference of the
  two, and leaves the other years alone. The summary of a list holds, for every year that
  has a sale result, the fold from left to right of the sale results of that year; so two
  lists that give every year the same sale results in the same order give the same summary.
  The floating-point sum of two numbers does not depend on their order, and in the range
  of the normal numbers it is the exact sum up to a relative error of \<open>2 ^ (- 53)\<close>.
\<close>

theorem summary_fold_in_order:
  "summary_step t sm (financial_year t) =
     Some (add_sale (case sm (financial_year t) of None \<Rightarrow> no_sales | Some e \<Rightarrow> e) t)
   \<and> no_sales = \<lparr>total_gains = 0, total_losses = 0, net_position = 0\<rparr>
   \<and> total_gains (add_sale e t) =
        float_add (total_gains e)
          (float_add (float_of (discounted_gain t)) (float_of (undiscounted_gain t)))
   \<and> total_losses (add_sale e t) = float_add (total_losses e) \<bar>float_of (capital_loss t)\<bar>
   \<and> net_position (add_sale e t) =
        float_sub (total_gains (add_sale e t)) (total_losses (add_sale e t))
   \<and> (fy \<noteq> financial_year t \<longrightarrow> summary_step t sm fy = sm fy)
   \<and> summary_loop [] = Map.empty
   \<and> summary_loop (rs @ [t]) = summary_step t (summary_loop rs)
   \<and> (rs \<noteq> [] \<longrightarrow> prepare_summary rs = Inr (summary_loop rs))
   \<and> summary_loop rs fy =
        (if of_period fy rs = [] then None else Some (period_totals (of_period fy rs)))
   \<and> period_totals [] = no_sales
   \<and> period_totals (rs @ [t]) = add_sale (period_totals rs) t
   \<and> ((\<forall>fy. of_period fy rs = of_period fy rs') \<longrightarrow>
        prepare_summary rs = prepare_summary rs')
   \<and> float_add a b = float_add b a
   \<and> (pow2 (- 1022) \<le> \<bar>a + b\<bar> \<longrightarrow> \<bar>float_add a b - (a + b)\<bar> \<le> \<bar>a + b\<bar> / 2 ^ 53)"
proof (intro conjI impI)
  show "\<bar>float_add a b - (a + b)\<bar> \<le> \<bar>a + b\<bar> / 2 ^ 53" if "pow2 (- 1022) \<le> \<bar>a + b\<bar>"
    using that by (rule float_add_relative)
  show "summary_step t sm (financial_year t) =
     Some (add_sale (case sm (financial_year t) of None \<Rightarrow> no_sales | Some e \<Rightarrow> e) t)"
    by (rule summary_step_at)
  show "summary_loop rs fy =
        (if of_period fy rs = [] then None else Some (period_totals (of_period fy rs)))"
    by (rule summary_loop_period)
  show "prepare_summary rs = prepare_summary rs'" if "\<forall>fy. of_period fy rs = of_period fy rs'"
    using that by (rule prepare_summary_order)
  show "float_add a b = float_add b a"
    by (rule float_add_commute)
  show "summary_step t sm fy = sm fy" if "fy \<noteq> financial_year t"
    using that by (rule summary_step_other)
qed (simp_all add: no_sales_def add_sale_def Let_def summary_loop_def prepare_summary_def
      period_totals_def)

text \<open>A sale of \<open>FY22_23\<close> folded into a summary that holds the year; and a batch of two
  sales of \<open>FY22_23\<close> and one of \<open>FY23_24\<close> folded in two orders that keep the two sales
  of \<open>FY22_23\<close> in the same order.\<close>

theorem summary_fold_in_order_witness:
  "summary_step
      \<lparr>symbol = ''Y'', buy_dates = [], sell_date = ''01 Mar 2023'', units = 5,
       cost_base = 90, proceeds = 100, total_gain_loss = 10, discounted_gain = 0,
       undiscounted_gain = 30, capital_loss = - 20, financial_year = ''FY22_23'',
       holding_periods = []\<rparr>
      [''FY22_23'' \<mapsto> \<lparr>total_gains = 600, total_losses = 50, net_position = 550\<rparr>]
      ''FY22_23''
     = Some \<lparr>total_gains = 630, total_losses = 70, net_position = 560\<rparr>
   \<and> summary_step
      \<lparr>symbol = ''Y'', buy_dates = [], sell_date = ''01 Mar 2023'', units = 5,
       cost_base = 90, proceeds = 100, total_gain_loss = 10, discounted_gain = 0,
       undiscounted_gain = 30, capital_loss = - 20, financial_year = ''FY22_23'',
       holding_periods = []\<rparr>
      [''FY22_23'' \<mapsto> \<lparr>total_gains = 600, total_losses = 50, net_position = 550\<rparr>]
      ''FY23_24''
     = None
   \<and> prepare_summary
     [\<lparr>symbol = ''X'', buy_dates = [], sell_date = ''01 Feb 2023'', units = 15,
       cost_base = 1550, proceeds = 2000, total_gain_loss = 550, discounted_gain = 500,
       undiscounted_gain = 100, capital_loss = - 50, financial_year = ''FY22_23'',
       holding_periods = []\<rparr>,
      \<lparr>symbol = ''Y'', buy_dates = [], sell_date = ''01 Mar 2023'', units = 5,
       cost_base = 90, proceeds = 100, total_gain_loss = 10, discounted_gain = 0,
       undiscounted_gain = 30, capital_loss = - 20, financial_year = ''FY22_23'',
       holding_periods = []\<rparr>,
      \<lparr>symbol = ''Y'', buy_dates = [], sell_date = ''01 Aug 2023'', units = 5,
       cost_base = 90, proceeds = 80, total_gain_loss = - 10, discounted_gain = 0,
       undiscounted_gain = 0, capital_loss = - 10, financial_year = ''FY23_24'',
       holding_periods = []\<rparr>]
     = Inr [''FY22_23'' \<mapsto> \<lparr>total_gains = 630, total_losses = 70, net_position = 560\<rparr>,
            ''FY23_24'' \<mapsto> \<lparr>total_gains = 0, total_losses = 10, net_position = - 10\<rparr>]
   \<and> prepare_summary
     [\<lparr>symbol = ''Y'', buy_dates = [], sell_date = ''01 Aug 2023'', units = 5,
       cost_base = 90, proceeds = 80, total_gain_loss = - 10, discounted_gain = 0,
       undiscounted_gain = 0, capital_loss = - 10, financial_year = ''FY23_24'',
       holding_periods = []\<rparr>,
      \<lparr>symbol = ''X'', buy_dates = [], sell_date = ''01 Feb 2023'', units = 15,
       cost_base = 1550, proceeds = 2000, total_gain_loss = 550, discounted_gain = 500,
       undiscounted_gain = 100, capital_loss = - 50, financial_year = ''FY22_23'',
       holding_periods = []\<rparr>,
      \<lparr>symbol = ''Y'', buy_dates = [], sell_date = ''01 Mar 2023'', units = 5,
       cost_base = 90, proceeds = 100, total_gain_loss = 10, discounted_gain = 0,
       undiscounted_gain = 30, capital_loss = - 20, financial_year = ''FY22_23'',
       holding_periods = []\<rparr>]
     = prepare_summary
     [\<lparr>symbol = ''X'', buy_dates = [], sell_date = ''01 Feb 2023'', units = 15,
       cost_base = 1550, proceeds = 2000, total_gain_loss = 550, discounted_gain = 500,
       undiscounted_gain = 100, capital_loss = - 50, financial_year = ''FY22_23'',
       holding_periods = []\<rparr>,
      \<lparr>symbol = ''Y'', buy_dates = [], sell_date = ''01 Mar 2023'', units = 5,
       cost_base = 90, proceeds = 100, total_gain_loss = 10, discounted_gain = 0,
       undiscounted_gain = 30, capital_loss = - 20, financial_year = ''FY22_23'',
       holding_periods = []\<rparr>,
      \<lparr>symbol = ''Y'', buy_dates = [], sell_date = ''01 Aug 2023'', units = 5,
       cost_base = 90, proceeds = 80, total_gain_loss = - 10, discounted_gain = 0,
       undiscounted_gain = 0, capital_loss = - 10, financial_year = ''FY23_24'',
       holding_periods = []\<rparr>]
   \<and> \<bar>float_add 30 600 - 630\<bar> \<le> 630 / 2 ^ 53"
proof -
  let ?a = "\<lparr>symbol = ''X'', buy_dates = [], sell_date = ''01 Feb 2023'', units = 15,
       cost_base = 1550, proceeds = 2000, total_gain_loss = 550, discounted_gain = 500,
       undiscounted_gain = 100, capital_loss = - 50, financial_year = ''FY22_23'',
       holding_periods = []\<rparr>"
  let ?b = "\<lparr>symbol = ''Y'', buy_dates = [], sell_date = ''01 Mar 2023'', units = 5,
       cost_base = 90, proceeds = 100, total_gain_loss = 10, discounted_gain = 0,
       undiscounted_gain = 30, capital_loss = - 20, financial_year = ''FY22_23'',
       holding_periods = []\<rparr>"
  let ?c = "\<lparr>symbol = ''Y'', buy_dates = [], sell_date = ''01 Aug 2023'', units = 5,
       cost_base = 90, proceeds = 80, total_gain_loss = - 10, discounted_gain = 0,
       undiscounted_gain = 0, capital_loss = - 10, financial_year = ''FY23_24'',
       holding_periods = []\<rparr>"
  let ?sm = "[''FY22_23'' \<mapsto> \<lparr>total_gains = 600, total_losses = 50, net_position = 550\<rparr>]"
  let ?e = "\<lparr>total_gains = 600, total_losses = 50, net_position = 550\<rparr>"
  have floats: "float_of 0 = 0" "float_of 30 = 30" "float_of (- 20) = - 20"
    "float_of 500 = 500" "float_of 100 = 100" "float_of (- 50) = - 50" "float_of (- 10) = - 10"
    "float_add 0 30 = 30" "float_add 600 30 = 630" "float_add 50 20 = 70"
    "float_sub 630 70 = 560" "float_add 500 100 = 600" "float_add 0 600 = 600"
    "float_add 0 50 = 50" "float_sub 600 50 = 550" "float_add 0 0 = 0" "float_add 0 10 = 10"
    "float_sub 0 10 = - 10"
    by (simp_all add: eval_float)
  have order: "\<forall>fy. of_period fy [?a, ?b, ?c] = of_period fy [?c, ?a, ?b]"
    by (simp add: of_period_def)
  note all = summary_fold_in_order [where t = ?b and sm = ?sm and e = ?e and fy = "''FY23_24''"
      and rs = "[?a, ?b, ?c]" and rs' = "[?c, ?a, ?b]" and a = 30 and b = 600]
  from all have here: "summary_step ?b ?sm ''FY22_23'' = Some (add_sale ?e ?b)"
    by simp
  from all have "total_gains (add_sale ?e ?b) = 630" "total_losses (add_sale ?e ?b) = 70"
    by (simp_all add: floats)
  moreover from all this have "net_position (add_sale ?e ?b) = 560"
    by (simp add: floats)
  ultimately have "add_sale ?e ?b = \<lparr>total_gains = 630, total_losses = 70, net_position = 560\<rparr>"
    by (cases "add_sale ?e ?b") simp
  with here have step: "summary_step ?b ?sm ''FY22_23''
      = Some \<lparr>total_gains = 630, total_losses = 70, net_position = 560\<rparr>"
    by simp
  from all have other: "summary_step ?b ?sm ''FY23_24'' = None"
    by simp
  from all have "prepare_summary [?a, ?b, ?c] = Inr (summary_loop [?a, ?b, ?c])"
    by simp
  moreover have "summary_loop [?a, ?b, ?c]
      = [''FY22_23'' \<mapsto> \<lparr>total_gains = 630, total_losses = 70, net_position = 560\<rparr>,
         ''FY23_24'' \<mapsto> \<lparr>total_gains = 0, total_losses = 10, net_position = - 10\<rparr>]"
    by (rule ext) (simp add: summary_loop_def summary_step_def floats)
  ultimately have batch: "prepare_summary [?a, ?b, ?c]
      = Inr [''FY22_23'' \<mapsto> \<lparr>total_gains = 630, total_losses = 70, net_position = 560\<rparr>,
             ''FY23_24'' \<mapsto> \<lparr>total_gains = 0, total_losses = 10, net_position = - 10\<rparr>]"
    by simp
  from all order have "prepare_summary [?a, ?b, ?c] = prepare_summary [?c, ?a, ?b]"
    by blast
  then have order': "prepare_summary [?c, ?a, ?b] = prepare_summary [?a, ?b, ?c]"
    by (rule sym)
  have normal: "pow2 (- 1022) \<le> \<bar>30 + 600\<bar>"
    by (simp add: pow2_def)
  from all have "pow2 (- 1022) \<le> \<bar>30 + 600\<bar> \<longrightarrow>
      \<bar>float_add 30 600 - (30 + 600)\<bar> \<le> \<bar>30 + 600\<bar> / 2 ^ 53"
    by blast
  with normal have near: "\<bar>float_add 30 600 - 630\<bar> \<le> 630 / 2 ^ 53"
    by simp
  from step other batch order' near show ?thesis
    by (intro conjI)
qed

text \<open>
  Claim C8 as stated fails: three sales of one year whose gains are the floats \<^verbatim>\<open>0.1\<close>,
  \<^verbatim>\<open>0.2\<close> and \<^verbatim>\<open>0.3\<close> (the floats nearest to \<open>1 / 10\<close>, \<open>2 / 10\<close> and
  \<open>3 / 10\<close>), folded in this order, give the total \<^verbatim>\<open>0.6000000000000001\<close>
  (\<open>1351079888211149 / 2 ^ 51\<close>); folded in the reverse order they give \<^verbatim>\<open>0.6\<close>
  (\<open>5404319552844595 / 2 ^ 53\<close>).
\<close>

theorem summary_order_changes_totals:
  "float_of (1 / 10) = 3602879701896397 / 2 ^ 55
   \<and> float_of (2 / 10) = 3602879701896397 / 2 ^ 54
   \<and> float_of (3 / 10) = 5404319552844595 / 2 ^ 54
   \<and> mset
     [\<lparr>symbol = ''X'', buy_dates = [], sell_date = ''01 Feb 2023'', units = 1,
       cost_base = 1, proceeds = 1 + 3602879701896397 / 2 ^ 55, total_gain_loss = 3602879701896397 / 2 ^ 55, discounted_gain = 0,
       undiscounted_gain = 3602879701896397 / 2 ^ 55, capital_loss = 0, financial_year = ''FY22_23'',
       holding_periods = []\<rparr>,
      \<lparr>symbol = ''Y'', buy_dates = [], sell_date = ''01 Feb 2023'', units = 1,
       cost_base = 1, proceeds = 1 + 3602879701896397 / 2 ^ 54, total_gain_loss = 3602879701896397 / 2 ^ 54, discounted_gain = 0,
       undiscounted_gain = 3602879701896397 / 2 ^ 54, capital_loss = 0, financial_year = ''FY22_23'',
       holding_periods = []\<rparr>,
      \<lparr>symbol = ''Z'', buy_dates = [], sell_date = ''01 Feb 2023'', units = 1,
       cost_base = 1, proceeds = 1 + 5404319552844595 / 2 ^ 54, total_gain_loss = 5404319552844595 / 2 ^ 54, discounted_gain = 0,
       undiscounted_gain = 5404319552844595 / 2 ^ 54, capital_loss = 0, financial_year = ''FY22_23'',
       holding_periods = []\<rparr>]
   = mset
     [\<lparr>symbol = ''Z'', buy_dates = [], sell_date = ''01 Feb 2023'', units = 1,
       cost_base = 1, proceeds = 1 + 5404319552844595 / 2 ^ 54, total_gain_loss = 5404319552844595 / 2 ^ 54, discounted_gain = 0,
       undiscounted_gain = 5404319552844595 / 2 ^ 54, capital_loss = 0, financial_year = ''FY22_23'',
       holding_periods = []\<rparr>,
      \<lparr>symbol = ''Y'', buy_dates = [], sell_date = ''01 Feb 2023'', units = 1,
       cost_base = 1, proceeds = 1 + 3602879701896397 / 2 ^ 54, total_gain_loss = 3602879701896397 / 2 ^ 54, discounted_gain = 0,
       undiscounted_gain = 3602879701896397 / 2 ^ 54, capital_loss = 0, financial_year = ''FY22_23'',
       holding_periods = []\<rparr>,
      \<lparr>symbol = ''X'', buy_dates = [], sell_date = ''01 Feb 2023'', units = 1,
       cost_base = 1, proceeds = 1 + 3602879701896397 / 2 ^ 55, total_gain_loss = 3602879701896397 / 2 ^ 55, discounted_gain = 0,
       undiscounted_gain = 3602879701896397 / 2 ^ 55, capital_loss = 0, financial_year = ''FY22_23'',
       holding_periods = []\<rparr>]
   \<and> prepare_summary
     [\<lparr>symbol = ''X'', buy_dates = [], sell_date = ''01 Feb 2023'', units = 1,
       cost_base = 1, proceeds = 1 + 3602879701896397 / 2 ^ 55, total_gain_loss = 3602879701896397 / 2 ^ 55, discounted_gain = 0,
       undiscounted_gain = 3602879701896397 / 2 ^ 55, capital_loss = 0, financial_year = ''FY22_23'',
       holding_periods = []\<rparr>,
      \<lparr>symbol = ''Y'', buy_dates = [], sell_date = ''01 Feb 2023'', units = 1,
       cost_base = 1, proceeds = 1 + 3602879701896397 / 2 ^ 54, total_gain_loss = 3602879701896397 / 2 ^ 54, discounted_gain = 0,
       undiscounted_gain = 3602879701896397 / 2 ^ 54, capital_loss = 0, financial_year = ''FY22_23'',
       holding_periods = []\<rparr>,
      \<lparr>symbol = ''Z'', buy_dates = [], sell_date = ''01 Feb 2023'', units = 1,
       cost_base = 1, proceeds = 1 + 5404319552844595 / 2 ^ 54, total_gain_loss = 5404319552844595 / 2 ^ 54, discounted_gain = 0,
       undiscounted_gain = 5404319552844595 / 2 ^ 54, capital_loss = 0, financial_year = ''FY22_23'',
       holding_periods = []\<rparr>]
     = Inr [''FY22_23'' \<mapsto>
             \<lparr>total_gains = 1351079888211149 / 2 ^ 51, total_losses = 0,
              net_position = 1351079888211149 / 2 ^ 51\<rparr>]
   \<and> prepare_summary
     [\<lparr>symbol = ''Z'', buy_dates = [], sell_date = ''01 Feb 2023'', units = 1,
       cost_base = 1, proceeds = 1 + 5404319552844595 / 2 ^ 54, total_gain_loss = 5404319552844595 / 2 ^ 54, discounted_gain = 0,
       undiscounted_gain = 5404319552844595 / 2 ^ 54, capital_loss = 0, financial_year = ''FY22_23'',
       holding_periods = []\<rparr>,
      \<lparr>symbol = ''Y'', buy_dates = [], sell_date = ''01 Feb 2023'', units = 1,
       cost_base = 1, proceeds = 1 + 3602879701896397 / 2 ^ 54, total_gain_loss = 3602879701896397 / 2 ^ 54, discounted_gain = 0,
       undiscounted_gain = 3602879701896397 / 2 ^ 54, capital_loss = 0, financial_year = ''FY22_23'',
       holding_periods = []\<rparr>,
      \<lparr>symbol = ''X'', buy_dates = [], sell_date = ''01 Feb 2023'', units = 1,
       cost_base = 1, proceeds = 1 + 3602879701896397 / 2 ^ 55, total_gain_loss = 3602879701896397 / 2 ^ 55, discounted_gain = 0,
       undiscounted_gain = 3602879701896397 / 2 ^ 55, capital_loss = 0, financial_year = ''FY22_23'',
       holding_periods = []\<rparr>]
     = Inr [''FY22_23'' \<mapsto>
             \<lparr>total_gains = 5404319552844595 / 2 ^ 53, total_losses = 0,
              net_position = 5404319552844595 / 2 ^ 53\<rparr>]
   \<and> prepare_summary
     [\<lparr>symbol = ''X'', buy_dates = [], sell_date = ''01 Feb 2023'', units = 1,
       cost_base = 1, proceeds = 1 + 3602879701896397 / 2 ^ 55, total_gain_loss = 3602879701896397 / 2 ^ 55, discounted_gain = 0,
       undiscounted_gain = 3602879701896397 / 2 ^ 55, capital_loss = 0, financial_year = ''FY22_23'',
       holding_periods = []\<rparr>,
      \<lparr>symbol = ''Y'', buy_dates = [], sell_date = ''01 Feb 2023'', units = 1,
       cost_base = 1, proceeds = 1 + 3602879701896397 / 2 ^ 54, total_gain_loss = 3602879701896397 / 2 ^ 54, discounted_gain = 0,
       undiscounted_gain = 3602879701896397 / 2 ^ 54, capital_loss = 0, financial_year = ''FY22_23'',
       holding_periods = []\<rparr>,
      \<lparr>symbol = ''Z'', buy_dates = [], sell_date = ''01 Feb 2023'', units = 1,
       cost_base = 1, proceeds = 1 + 5404319552844595 / 2 ^ 54, total_gain_loss = 5404319552844595 / 2 ^ 54, discounted_gain = 0,
       undiscounted_gain = 5404319552844595 / 2 ^ 54, capital_loss = 0, financial_year = ''FY22_23'',
       holding_periods = []\<rparr>]
     \<noteq> prepare_summary
     [\<lparr>symbol = ''Z'', buy_dates = [], sell_date = ''01 Feb 2023'', units = 1,
       cost_base = 1, proceeds = 1 + 5404319552844595 / 2 ^ 54, total_gain_loss = 5404319552844595 / 2 ^ 54, discounted_gain = 0,
       undiscounted_gain = 5404319552844595 / 2 ^ 54, capital_loss = 0, financial_year = ''FY22_23'',
       holding_periods = []\<rparr>,
      \<lparr>symbol = ''Y'', buy_dates = [], sell_date = ''01 Feb 2023'', units = 1,
       cost_base = 1, proceeds = 1 + 3602879701896397 / 2 ^ 54, total_gain_loss = 3602879701896397 / 2 ^ 54, discounted_gain = 0,
       undiscounted_gain = 3602879701896397 / 2 ^ 54, capital_loss = 0, financial_year = ''FY22_23'',
       holding_periods = []\<rparr>,
      \<lparr>symbol = ''X'', buy_dates = [], sell_date = ''01 Feb 2023'', units = 1,
       cost_base = 1, proceeds = 1 + 3602879701896397 / 2 ^ 55, total_gain_loss = 3602879701896397 / 2 ^ 55, discounted_gain = 0,
       undiscounted_gain = 3602879701896397 / 2 ^ 55, capital_loss = 0, financial_year = ''FY22_23'',
       holding_periods = []\<rparr>]"
proof -
  let ?x = "\<lparr>symbol = ''X'', buy_dates = [], sell_date = ''01 Feb 2023'', units = 1,
       cost_base = 1, proceeds = 1 + 3602879701896397 / 2 ^ 55, total_gain_loss = 3602879701896397 / 2 ^ 55, discounted_gain = 0,
       undiscounted_gain = 3602879701896397 / 2 ^ 55, capital_loss = 0, financial_year = ''FY22_23'',
       holding_periods = []\<rparr>"
  let ?y = "\<lparr>symbol = ''Y'', buy_dates = [], sell_date = ''01 Feb 2023'', units = 1,
       cost_base = 1, proceeds = 1 + 3602879701896397 / 2 ^ 54, total_gain_loss = 3602879701896397 / 2 ^ 54, discounted_gain = 0,
       undiscounted_gain = 3602879701896397 / 2 ^ 54, capital_loss = 0, financial_year = ''FY22_23'',
       holding_periods = []\<rparr>"
  let ?z = "\<lparr>symbol = ''Z'', buy_dates = [], sell_date = ''01 Feb 2023'', units = 1,
       cost_base = 1, proceeds = 1 + 5404319552844595 / 2 ^ 54, total_gain_loss = 5404319552844595 / 2 ^ 54, discounted_gain = 0,
       undiscounted_gain = 5404319552844595 / 2 ^ 54, capital_loss = 0, financial_year = ''FY22_23'',
       holding_periods = []\<rparr>"
  have nearest: "float_of (1 / 10) = 3602879701896397 / 2 ^ 55" "float_of (2 / 10) = 3602879701896397 / 2 ^ 54"
    "float_of (3 / 10) = 5404319552844595 / 2 ^ 54"
    by (simp_all add: eval_float)
  have floats: "float_of 0 = 0" "float_add 0 0 = 0"
    "float_of (3602879701896397 / 36028797018963968) = 3602879701896397 / 36028797018963968"
    "float_of (3602879701896397 / 18014398509481984) = 3602879701896397 / 18014398509481984"
    "float_of (5404319552844595 / 18014398509481984) = 5404319552844595 / 18014398509481984"
    "float_add 0 (3602879701896397 / 36028797018963968) = 3602879701896397 / 36028797018963968"
    "float_add 0 (3602879701896397 / 18014398509481984) = 3602879701896397 / 18014398509481984"
    "float_add 0 (5404319552844595 / 18014398509481984) = 5404319552844595 / 18014398509481984"
    "float_add (3602879701896397 / 36028797018963968) (3602879701896397 / 18014398509481984)
       = 1351079888211149 / 4503599627370496"
    "float_add (1351079888211149 / 4503599627370496) (5404319552844595 / 18014398509481984)
       = 1351079888211149 / 2251799813685248"
    "float_add (5404319552844595 / 18014398509481984) (3602879701896397 / 18014398509481984)
       = 1 / 2"
    "float_add (1 / 2) (3602879701896397 / 36028797018963968)
       = 5404319552844595 / 9007199254740992"
    "float_sub (1351079888211149 / 2251799813685248) 0 = 1351079888211149 / 2251799813685248"
    "float_sub (5404319552844595 / 9007199254740992) 0 = 5404319552844595 / 9007199254740992"
    "float_sub (3602879701896397 / 36028797018963968) 0 = 3602879701896397 / 36028797018963968"
    "float_sub (5404319552844595 / 18014398509481984) 0 = 5404319552844595 / 18014398509481984"
    "float_sub (1351079888211149 / 4503599627370496) 0 = 1351079888211149 / 4503599627370496"
    "float_sub (1 / 2) 0 = 1 / 2"
    by (simp_all add: eval_float)
  have same: "mset [?x, ?y, ?z] = mset [?z, ?y, ?x]"
    by simp
  have "summary_loop [?x, ?y, ?z]
      = [''FY22_23'' \<mapsto> \<lparr>total_gains = 1351079888211149 / 2 ^ 51, total_losses = 0,
                           net_position = 1351079888211149 / 2 ^ 51\<rparr>]"
    by (rule ext) (simp add: summary_loop_def summary_step_def Let_def floats)
  then have forwards: "prepare_summary [?x, ?y, ?z]
      = Inr [''FY22_23'' \<mapsto> \<lparr>total_gains = 1351079888211149 / 2 ^ 51, total_losses = 0,
                               net_position = 1351079888211149 / 2 ^ 51\<rparr>]"
    unfolding prepare_summary_def by (simp only: list.distinct if_False)
  have "summary_loop [?z, ?y, ?x]
      = [''FY22_23'' \<mapsto> \<lparr>total_gains = 5404319552844595 / 2 ^ 53, total_losses = 0,
                           net_position = 5404319552844595 / 2 ^ 53\<rparr>]"
    by (rule ext) (simp add: summary_loop_def summary_step_def Let_def floats)
  then have backwards: "prepare_summary [?z, ?y, ?x]
      = Inr [''FY22_23'' \<mapsto> \<lparr>total_gains = 5404319552844595 / 2 ^ 53, total_losses = 0,
                               net_position = 5404319552844595 / 2 ^ 53\<rparr>]"
    unfolding prepare_summary_def by (simp only: list.distinct if_False)
  have "\<lparr>total_gains = 1351079888211149 / 2 ^ 51, total_losses = 0,
         net_position = 1351079888211149 / 2 ^ 51\<rparr>
      \<noteq> \<lparr>total_gains = 5404319552844595 / 2 ^ 53, total_losses = 0,
           net_position = 5404319552844595 / 2 ^ 53 :: rat\<rparr>"
    by simp
  then have differ: "prepare_summary [?x, ?y, ?z] \<noteq> prepare_summary [?z, ?y, ?x]"
    unfolding forwards backwards by (metis map_upd_eqD1 sum.inject(2))
  from nearest same forwards backwards differ show ?thesis
    by (intro conjI)
qed

subsection \<open>Cost base of a lot sold in several sales\<close>

text \<open>A lot sold in two sales, \<open>t\<close> units and then the rest: the first sale gets the share
  \<open>t / units\<close> of the lot's cost, the second the whole cost again.\<close>

lemma lot_sold_in_two_sales:
  assumes "0 < t" "t < lot_units p"
  shows "match_loop t [p] [] 0 =
           Inr (0, [p\<lparr>lot_units := lot_units p - t\<rparr>], [taken_part p t],
                total_cost p * (t / lot_units p))"
    and "match_loop (lot_units p - t) [p\<lparr>lot_units := lot_units p - t\<rparr>] [] 0 =
           Inr (0, [],
                [\<lparr>matched_date = lot_date p, matched_units = lot_units p - t,
                  matched_cost = total_cost p\<rparr>],
                total_cost p)"
  using assms
  by (simp_all add: match_loop.simps Let_def taken_part_def)

text \<open>
  Claim C1, at an input where the code departs from it. A lot of 10 units bought for 1000 is
  sold in two sales, of 4 and of 6 units. The first sale is given the cost
  \<open>1000 * (4 / 10) = 400\<close>. The second divides by the 6 units the lot still holds and
  multiplies the lot's unchanged \<^verbatim>\<open>total_cost\<close>: \<open>1000 * (6 / 6) = 1000\<close>. The two
  costs sum to 1400, not to the 1000 the lot cost.
\<close>

theorem cost_base_counted_twice:
  "total_cost (new_parcel
      \<lparr>Trade_Date = \<lparr>year = 2022, month = 1, day = 1\<rparr>, Symbol = ''X'', Side = ''Buy'',
       Units = 10, Value = 1000, Fees = 0, GST = 0, AUD_USD_rate = 1\<rparr>) = 1000
   \<and> map_sum id (\<lambda>(results, warnings). map cost_base results)
       (match_trades
          [\<lparr>Trade_Date = \<lparr>year = 2022, month = 1, day = 1\<rparr>, Symbol = ''X'', Side = ''Buy'',
            Units = 10, Value = 1000, Fees = 0, GST = 0, AUD_USD_rate = 1\<rparr>]
          [\<lparr>Trade_Date = \<lparr>year = 2022, month = 6, day = 1\<rparr>, Symbol = ''X'', Side = ''Sell'',
            Units = 4, Value = 500, Fees = 0, GST = 0, AUD_USD_rate = 1\<rparr>,
           \<lparr>Trade_Date = \<lparr>year = 2023, month = 2, day = 1\<rparr>, Symbol = ''X'', Side = ''Sell'',
            Units = 6, Value = 800, Fees = 0, GST = 0, AUD_USD_rate = 1\<rparr>])
     = Inr [400, 1000]"
  by (simp add: eval_match eval_dates sale_result_fields)

subsection \<open>Rendering of the financial year\<close>

text \<open>From July on, the string has the seven characters of \<open>FY23_24\<close> exactly when the
  last two digits of the year lie between 10 and 98.\<close>

lemma str_nat_length:
  "n < 10 \<Longrightarrow> length (str_nat n) = 1"
  "10 \<le> n \<Longrightarrow> n < 100 \<Longrightarrow> length (str_nat n) = 2"
proof -
  show one: "length (str_nat n) = 1" if "n < 10" for n
    using that by (simp add: str_nat.simps [of n])
  assume "10 \<le> n" "n < 100"
  then have "n div 10 < 10" by simp
  from one [OF this] \<open>10 \<le> n\<close> show "length (str_nat n) = 2"
    by (simp add: str_nat.simps [of n])
qed

lemma str_int_length:
  assumes "0 \<le> i" "i < 100"
  shows "length (str_int i) = (if i < 10 then 1 else 2)"
proof (cases "i < 10")
  case True
  with assms have "nat i < 10" by simp
  with assms True show ?thesis by (simp add: str_int_def str_nat_length(1))
next
  case False
  with assms have "10 \<le> nat i" "nat i < 100" by simp_all
  with assms False show ?thesis by (simp add: str_int_def str_nat_length(2))
qed

lemma financial_year_length:
  assumes "7 \<le> month d"
  shows "length (get_financial_year d) = 7 \<longleftrightarrow> 10 \<le> year d mod 100 \<and> year d mod 100 \<le> 98"
proof -
  define a where "a = year d mod 100"
  define b where "b = (year d + 1) mod 100"
  have ra: "0 \<le> a" "a < 100" and rb: "0 \<le> b" "b < 100"
    by (simp_all add: a_def b_def)
  have "b = (a + 1) mod 100"
    unfolding a_def b_def by (simp add: mod_add_left_eq)
  with ra have b: "b = (if a = 99 then 0 else a + 1)"
    by simp
  have "length (get_financial_year d) = 3 + length (str_int a) + length (str_int b)"
    using assms by (simp add: get_financial_year_def a_def b_def)
  also have "\<dots> = 3 + (if a < 10 then 1 else 2) + (if b < 10 then 1 else 2)"
    by (simp only: str_int_length [OF ra] str_int_length [OF rb])
  finally have "length (get_financial_year d) = 7 \<longleftrightarrow> 10 \<le> a \<and> 10 \<le> b"
    by (simp split: if_splits)
  also have "\<dots> \<longleftrightarrow> 10 \<le> a \<and> a \<le> 98"
    using ra by (auto simp: b)
  finally show ?thesis by (simp add: a_def)
qed

text \<open>
  Claim C5, at inputs where the code departs from it. A year whose last two digits are
  below 10 is rendered on one digit: 15 March 2009 gives \<open>FY8_9\<close> and 1 August 2005
  gives \<open>FY5_6\<close>, not \<open>FY08_09\<close> and \<open>FY05_06\<close>.
\<close>

theorem financial_year_one_digit:
  "get_financial_year \<lparr>year = 2009, month = 3, day = 15\<rparr> = ''FY8_9''
   \<and> get_financial_year \<lparr>year = 2005, month = 8, day = 1\<rparr> = ''FY5_6''"
  by (simp add: get_financial_year_def str_int_def str_nat.simps)

end
